theory Spec2Isabelle
  imports Complex_Main "HOL-Library.Sublist"
begin

section \<open>Python strings and values\<close>

text \<open>
  A Python \<open>str\<close> is a sequence of Unicode code points, and slicing (\<open>s[:100]\<close>)
  counts code points; the messages of the bot contain code points far beyond one byte.
  A string is therefore a list of code points, and \<open>ustr\<close> reads an ASCII literal.
\<close>

type_synonym pystr = "nat list"

definition ustr :: "string \<Rightarrow> pystr" where
  "ustr s = map of_char s"

text \<open>
  \<open>sub in s\<close> on strings is \<^term>\<open>sublist sub s\<close> (a contiguous run of \<open>s\<close>), and
  \<open>s.endswith(suf)\<close> is \<^term>\<open>suffix suf s\<close>.
\<close>

definition endswith :: "pystr \<Rightarrow> pystr \<Rightarrow> bool" where
  "endswith s suf = suffix suf s"

text \<open>\<open>s.endswith((a, b, ...))\<close>: true when one of the suffixes of the tuple matches.\<close>

definition endswith_any :: "pystr \<Rightarrow> pystr list \<Rightarrow> bool" where
  "endswith_any s sufs = list_ex (endswith s) sufs"

text \<open>
  \<open>str.strip()\<close> removes the leading and trailing white space; these are the code
  points Python's \<open>str\<close> counts as white space.
\<close>

definition is_space :: "nat \<Rightarrow> bool" where
  "is_space c =
     ((9 \<le> c \<and> c \<le> 13) \<or> (28 \<le> c \<and> c \<le> 32) \<or> c = 133 \<or> c = 160 \<or> c = 5760
      \<or> (8192 \<le> c \<and> c \<le> 8202) \<or> c = 8232 \<or> c = 8233 \<or> c = 8239 \<or> c = 8287
      \<or> c = 12288)"

definition strip :: "pystr \<Rightarrow> pystr" where
  "strip s = rev (dropWhile is_space (rev (dropWhile is_space s)))"

text \<open>\<open>str(i)\<close> for an integer: its decimal digits.\<close>

function str_nat :: "nat \<Rightarrow> pystr" where
  "str_nat n = (if n < 10 then [48 + n] else str_nat (n div 10) @ [48 + n mod 10])"
  by pat_completeness auto
termination
  by (relation "measure id") auto

definition str_int :: "int \<Rightarrow> pystr" where
  "str_int i = (if i < 0 then 45 # str_nat (nat (- i)) else str_nat (nat i))"

text \<open>
  The values the handlers read out of the extraction library's dictionaries: a string or
  \<open>None\<close>. A dictionary is read at a fixed set of keys, so it is a record with one
  optional field for each key the code reads (\<open>None\<close>: the key is absent).
\<close>

datatype pyval = PyNone | PyStr pystr

text \<open>\<open>d.get(k)\<close> and \<open>d.get(k, default)\<close>.\<close>

definition dict_get :: "pyval option \<Rightarrow> pyval" where
  "dict_get v = (case v of None \<Rightarrow> PyNone | Some x \<Rightarrow> x)"

definition dict_get_default :: "'a option \<Rightarrow> 'a \<Rightarrow> 'a" where
  "dict_get_default v d = (case v of None \<Rightarrow> d | Some x \<Rightarrow> x)"

text \<open>The truth value of a Python value: \<open>None\<close> and the empty string are false.\<close>

fun truthy :: "pyval \<Rightarrow> bool" where
  "truthy PyNone = False"
| "truthy (PyStr s) = (s \<noteq> [])"

text \<open>What an f-string prints for a value (\<open>str(v)\<close>).\<close>

fun py_str :: "pyval \<Rightarrow> pystr" where
  "py_str PyNone = ustr ''None''"
| "py_str (PyStr s) = s"

text \<open>The numbers of a progress report: an integer or \<open>None\<close>.\<close>

datatype pynum = NumNone | NumInt int

text \<open>
  The exceptions of the model, with \<open>str(e)\<close>. A \<open>KeyError\<close> prints the \<open>repr\<close> of its key
  (the string keys here are plain identifiers, printed between single quotes).
\<close>

datatype exn =
    KeyError pystr
  | KeyErrorInt int
  | ZeroDivisionError
  | TypeError pystr
  | ExternalError pystr

fun exn_str :: "exn \<Rightarrow> pystr" where
  "exn_str (KeyError k) = [39] @ k @ [39]"
| "exn_str (KeyErrorInt i) = str_int i"
| "exn_str ZeroDivisionError = ustr ''division by zero''"
| "exn_str (TypeError m) = m"
| "exn_str (ExternalError m) = m"

text \<open>\<open>a / b\<close> on the numbers of a progress report; the quotient is kept exact.\<close>

definition operand_error :: "string \<Rightarrow> string \<Rightarrow> exn" where
  "operand_error a b =
     TypeError (ustr ''unsupported operand type(s) for /: '' @ [39] @ ustr a @ [39]
                @ ustr '' and '' @ [39] @ ustr b @ [39])"

fun py_truediv :: "pynum \<Rightarrow> pynum \<Rightarrow> exn + rat" where
  "py_truediv NumNone NumNone = Inl (operand_error ''NoneType'' ''NoneType'')"
| "py_truediv NumNone (NumInt b) = Inl (operand_error ''NoneType'' ''int'')"
| "py_truediv (NumInt a) NumNone = Inl (operand_error ''int'' ''NoneType'')"
| "py_truediv (NumInt a) (NumInt b) =
     (if b = 0 then Inl ZeroDivisionError else Inr (of_int a / of_int b))"

text \<open>\<open>os.path.join(a, b)\<close> for a relative \<open>b\<close>.\<close>

definition os_path_join :: "pystr \<Rightarrow> pystr \<Rightarrow> pystr" where
  "os_path_join a b = (if a = [] \<or> endswith a [47] then a @ b else a @ [47] @ b)"

section \<open>Data model\<close>

text \<open>A format descriptor and the metadata bag of the extraction library.\<close>

record fmt =
  format_id :: "pyval option"
  ext :: "pyval option"
  vcodec :: "pyval option"
  format_note :: "pyval option"

record info =
  formats :: "fmt list option"
  title :: "pyval option"
  uploader :: "pyval option"

text \<open>A progress report passed to a progress hook.\<close>

record progress =
  status :: "pystr option"
  downloaded_bytes :: "pynum option"
  total_bytes :: "pynum option"

text \<open>The value stored in \<open>user_context\<close>: \<open>{'link': text, 'info': info}\<close>.\<close>

type_synonym user_id = int

record session =
  link :: pystr
  info :: info

text \<open>An inline keyboard: rows of buttons, a button is a label and its callback data.\<close>

type_synonym button = "pystr \<times> pyval"
type_synonym keyboard = "button list list"

text \<open>
  The calls into the chat transport. \<open>ReplyText t md kb\<close> is
  \<open>reply_text(t, parse_mode='Markdown' if md, reply_markup=kb)\<close>;
  \<open>EditProgress q\<close> is the edit made by the progress hook, whose text shows the quotient
  \<open>q\<close> as a percentage (the rounding of the float format is not modelled);
  \<open>ReplyAudio path title performer\<close> and \<open>ReplyVideo path caption\<close> send the file.
\<close>

datatype call =
    Answer pystr
  | EditText pystr
  | EditProgress rat
  | ReplyText pystr bool "keyboard option"
  | ReplyAudio pystr pyval pyval
  | ReplyVideo pystr pystr

text \<open>
  Everything a handler does to the outside world, in the order it does it.
  \<open>PutSession\<close> and \<open>DelSession\<close> mark the writes to \<open>user_context\<close>;
  \<open>Uncaught e\<close> is the dispatcher's record of an exception that left a handler.
\<close>

datatype event =
    Tg call
  | Probe pystr
  | TmpDir pystr
  | Download pystr pystr pystr
  | PrepareFilename
  | OpenFile pystr
  | Cleanup pystr
  | PutSession user_id
  | DelSession user_id
  | LogError pystr
  | LogInfo pystr
  | Uncaught exn

record state =
  user_context :: "user_id \<rightharpoonup> session"
  trace :: "event list"
  tmpdirs :: "pystr list"

text \<open>
  The outside world. Every external call may raise:
  \<^item> \<open>transport\<close>: the outcome of a call into the chat transport, given what happened so far;
  \<^item> \<open>probe_result text\<close>: \<open>extract_info(text, download=False)\<close>;
  \<open>download_result format outtmpl link\<close>: \<open>extract_info(link, download=True)\<close>, that is
  the progress reports the library passes to the hooks and then its outcome;
  \<^item> \<open>prepare_filename outtmpl info\<close>, \<open>open_rb path\<close> (\<open>open(path, 'rb')\<close>) and
  \<open>mkdtemp\<close> (\<open>tempfile.TemporaryDirectory()\<close>, which names the new directory).
\<close>

record env =
  transport :: "event list \<Rightarrow> call \<Rightarrow> exn option"
  probe_result :: "pystr \<Rightarrow> exn + info"
  download_result :: "pystr \<Rightarrow> pystr \<Rightarrow> pystr \<Rightarrow> progress list \<times> (exn + info)"
  prepare_filename :: "pystr \<Rightarrow> info \<Rightarrow> exn + pystr"
  open_rb :: "pystr \<Rightarrow> exn option"
  mkdtemp :: "event list \<Rightarrow> exn + pystr"

section \<open>Statements: state passing with exceptions\<close>

text \<open>
  A statement takes the state and gives the new state with either a value or the
  exception it raised.
\<close>

type_synonym 'a M = "state \<Rightarrow> (exn + 'a) \<times> state"

definition returnM :: "'a \<Rightarrow> 'a M" where
  "returnM x s = (Inr x, s)"

definition raiseM :: "exn \<Rightarrow> 'a M" where
  "raiseM e s = (Inl e, s)"

definition bindM :: "'a M \<Rightarrow> ('a \<Rightarrow> 'b M) \<Rightarrow> 'b M" where
  "bindM m k s = (case m s of (Inl e, s') \<Rightarrow> (Inl e, s') | (Inr x, s') \<Rightarrow> k x s')"

text \<open>\<open>try: body except Exception as e: handler\<close>.\<close>

definition try_except :: "'a M \<Rightarrow> (exn \<Rightarrow> 'a M) \<Rightarrow> 'a M" where
  "try_except body handler s =
     (case body s of (Inl e, s') \<Rightarrow> handler e s' | (Inr x, s') \<Rightarrow> (Inr x, s'))"

definition emit :: "event \<Rightarrow> unit M" where
  "emit ev s = (Inr (), s\<lparr>trace := trace s @ [ev]\<rparr>)"

definition lift_result :: "exn + 'a \<Rightarrow> 'a M" where
  "lift_result r s = (r, s)"

text \<open>A call into the chat transport: recorded, then it returns or raises.\<close>

definition tg :: "env \<Rightarrow> call \<Rightarrow> unit M" where
  "tg E c s =
     (case transport E (trace s) c of
        Some e \<Rightarrow> (Inl e, s\<lparr>trace := trace s @ [Tg c]\<rparr>)
      | None \<Rightarrow> (Inr (), s\<lparr>trace := trace s @ [Tg c]\<rparr>))"

text \<open>\<open>d[k]\<close>: a \<open>KeyError\<close> when the key is absent.\<close>

definition subscript :: "'a option \<Rightarrow> string \<Rightarrow> 'a M" where
  "subscript v k = (case v of None \<Rightarrow> raiseM (KeyError (ustr k)) | Some x \<Rightarrow> returnM x)"

text \<open>\<open>user_context[user_id]\<close>, \<open>user_context[user_id] = v\<close> and \<open>del user_context[user_id]\<close>.\<close>

definition get_session :: "user_id \<Rightarrow> session M" where
  "get_session uid s =
     (case user_context s uid of None \<Rightarrow> (Inl (KeyErrorInt uid), s) | Some v \<Rightarrow> (Inr v, s))"

definition put_session :: "user_id \<Rightarrow> session \<Rightarrow> unit M" where
  "put_session uid v s =
     (Inr (), s\<lparr>user_context := (user_context s)(uid \<mapsto> v), trace := trace s @ [PutSession uid]\<rparr>)"

definition del_session :: "user_id \<Rightarrow> unit M" where
  "del_session uid s =
     (case user_context s uid of
        None \<Rightarrow> (Inl (KeyErrorInt uid), s)
      | Some v \<Rightarrow>
          (Inr (), s\<lparr>user_context := (user_context s)(uid := None),
                     trace := trace s @ [DelSession uid]\<rparr>))"

text \<open>
  \<open>with tempfile.TemporaryDirectory() as tmpdir: body\<close>: the directory is removed when
  the block is left, by a return or by an exception.
\<close>

definition with_tmpdir :: "env \<Rightarrow> (pystr \<Rightarrow> 'a M) \<Rightarrow> 'a M" where
  "with_tmpdir E body s =
     (case mkdtemp E (trace s) of
        Inl e \<Rightarrow> (Inl e, s)
      | Inr d \<Rightarrow>
          (case body d (s\<lparr>trace := trace s @ [TmpDir d], tmpdirs := d # tmpdirs s\<rparr>) of
             (r, s') \<Rightarrow>
               (r, s'\<lparr>trace := trace s' @ [Cleanup d], tmpdirs := remove1 d (tmpdirs s')\<rparr>)))"

section \<open>The extraction library and the file system\<close>

definition ydl_probe :: "env \<Rightarrow> pystr \<Rightarrow> info M" where
  "ydl_probe E url = bindM (emit (Probe url)) (\<lambda>_. lift_result (probe_result E url))"

definition ydl_prepare_filename :: "env \<Rightarrow> pystr \<Rightarrow> info \<Rightarrow> pystr M" where
  "ydl_prepare_filename E outtmpl meta =
     bindM (emit PrepareFilename) (\<lambda>_. lift_result (prepare_filename E outtmpl meta))"

definition open_file :: "env \<Rightarrow> pystr \<Rightarrow> unit M" where
  "open_file E path =
     bindM (emit (OpenFile path))
       (\<lambda>_. case open_rb E path of Some e \<Rightarrow> raiseM e | None \<Rightarrow> returnM ())"

section \<open>The handlers\<close>

subsection \<open>start\<close>

record message =
  effective_user_id :: user_id
  message_text :: pystr

definition welcome_text :: pystr where
  "welcome_text =
     [0x1F44B] @ ustr '' Welcome to YouTube Downloader Bot!'' @ [10, 10]
     @ [0x1F449] @ ustr '' *Send any YouTube link* to start'' @ [10, 10]
     @ [0x26A1] @ ustr '' *Works with all formats*: Video, Audio (MP3), 1080p, 4K & more''"

definition start_keyboard :: keyboard where
  "start_keyboard = [[([0x1F680] @ ustr '' Get Started'', PyStr (ustr ''start''))]]"

definition start :: "env \<Rightarrow> message \<Rightarrow> unit M" where
  "start E m = tg E (ReplyText welcome_text True (Some start_keyboard))"

subsection \<open>format_selected\<close>

record callback_query =
  from_user_id :: user_id
  data :: pystr

definition no_session_text :: pystr where
  "no_session_text = [0x26A0, 0xFE0F] @ ustr '' Please send a YouTube link first!''"

definition downloading_text :: pystr where
  "downloading_text =
     [0x23F3] @ ustr '' Downloading your file... (this may take 10-60 seconds)''"

definition complete_text :: pystr where
  "complete_text = [0x2705] @ ustr '' Download complete! (You can send another link)''"

definition download_failed_text :: "exn \<Rightarrow> pystr" where
  "download_failed_text e = [0x274C] @ ustr '' Failed: '' @ take 100 (exn_str e)"

definition audio_exts :: "pystr list" where
  "audio_exts = [ustr ''.mp3'', ustr ''.m4a'', ustr ''.opus'', ustr ''.webm'']"

text \<open>
  The progress hook: \<open>edit_text(...) if d['status'] == 'downloading' else None\<close>, with
  the quotient \<open>d.get('downloaded_bytes', 0) / d.get('total_bytes', 1)\<close>.
\<close>

definition progress_hook :: "env \<Rightarrow> progress \<Rightarrow> unit M" where
  "progress_hook E d =
     bindM (subscript (status d) ''status'') (\<lambda>st.
       if st = ustr ''downloading''
       then bindM (lift_result
                     (py_truediv (dict_get_default (downloaded_bytes d) (NumInt 0))
                                 (dict_get_default (total_bytes d) (NumInt 1))))
              (\<lambda>q. tg E (EditProgress q))
       else returnM ())"

text \<open>
  \<open>ydl.extract_info(link, download=True)\<close>: the library reports its progress to the
  hook, one report after the other, and an exception of the hook ends the download.
\<close>

fun run_hooks :: "env \<Rightarrow> progress list \<Rightarrow> unit M" where
  "run_hooks E [] = returnM ()"
| "run_hooks E (d # ds) = bindM (progress_hook E d) (\<lambda>_. run_hooks E ds)"

definition ydl_download :: "env \<Rightarrow> pystr \<Rightarrow> pystr \<Rightarrow> pystr \<Rightarrow> info M" where
  "ydl_download E fid outtmpl url =
     bindM (emit (Download fid outtmpl url)) (\<lambda>_.
     bindM (run_hooks E (fst (download_result E fid outtmpl url))) (\<lambda>_.
     lift_result (snd (download_result E fid outtmpl url))))"

text \<open>Lines 66 to 77: the file goes out as audio or as video.\<close>

definition send_file :: "env \<Rightarrow> pystr \<Rightarrow> info \<Rightarrow> unit M" where
  "send_file E file_path meta =
     (if endswith_any file_path audio_exts
      then bindM (open_file E file_path) (\<lambda>_.
           bindM (subscript (title meta) ''title'') (\<lambda>t.
           bindM (subscript (uploader meta) ''uploader'') (\<lambda>u.
           tg E (ReplyAudio file_path t u))))
      else bindM (open_file E file_path) (\<lambda>_.
           bindM (subscript (title meta) ''title'') (\<lambda>t.
           tg E (ReplyVideo file_path ([0x2705, 32] @ py_str t)))))"

text \<open>Lines 50 to 77: the body of the \<open>with tempfile.TemporaryDirectory()\<close> block.\<close>

definition download_block :: "env \<Rightarrow> user_id \<Rightarrow> pystr \<Rightarrow> pystr \<Rightarrow> unit M" where
  "download_block E uid fid tmpdir =
     (let outtmpl = os_path_join tmpdir (ustr ''%(id)s.%(ext)s'') in
      bindM (get_session uid) (\<lambda>ses.
      bindM (ydl_download E fid outtmpl (link ses)) (\<lambda>meta.
      bindM (ydl_prepare_filename E outtmpl meta) (\<lambda>file_path.
      send_file E file_path meta))))"

definition format_selected :: "env \<Rightarrow> callback_query \<Rightarrow> unit M" where
  "format_selected E query s =
     (let uid = from_user_id query; fid = data query in
      if uid \<notin> dom (user_context s) then tg E (Answer no_session_text) s
      else
        bindM (tg E (EditText downloading_text)) (\<lambda>_.
          try_except
            (bindM (with_tmpdir E (download_block E uid fid)) (\<lambda>_.
             bindM (del_session uid) (\<lambda>_.
             tg E (EditText complete_text))))
            (\<lambda>e. bindM (emit (LogError (ustr ''Download error: '' @ exn_str e))) (\<lambda>_.
                 tg E (EditText (download_failed_text e)))))
          s)"

subsection \<open>handle_youtube_link\<close>

definition invalid_link_text :: pystr where
  "invalid_link_text =
     [0x26A0, 0xFE0F]
     @ ustr '' Please send a valid YouTube link (youtube.com or youtu.be)''"

definition analyzing_text :: pystr where
  "analyzing_text = [0x1F50D] @ ustr '' Analyzing video formats... (10-30 seconds)''"

definition menu_text :: "pyval \<Rightarrow> pystr" where
  "menu_text t =
     [0x2705] @ ustr '' *'' @ py_str t @ ustr ''*'' @ [10, 10]
     @ [0x1F3AF] @ ustr '' *Select your format:*''"

definition probe_failed_text :: "exn \<Rightarrow> pystr" where
  "probe_failed_text e = [0x274C] @ ustr '' Failed to get formats: '' @ take 100 (exn_str e)"

definition video_glyph :: nat where
  "video_glyph = 0x1F3AC"

definition audio_glyph :: nat where
  "audio_glyph = 0x1F50A"

text \<open>
  The label of a descriptor (lines 117 to 120). \<open>f['ext']\<close> is read only past the guard
  of the loop, where the key is present, so it is the value \<open>f.get('ext')\<close>.
\<close>

definition format_label :: "fmt \<Rightarrow> pystr" where
  "format_label f =
     (if dict_get (vcodec f) \<noteq> PyStr (ustr ''none'')
      then [video_glyph] @ ustr '' ''
           @ py_str (dict_get_default (format_note f) (PyStr (ustr ''Unknown'')))
           @ ustr '' ('' @ py_str (dict_get (ext f)) @ ustr '')''
      else [audio_glyph] @ ustr '' ''
           @ py_str (dict_get_default (format_note f) (PyStr (ustr ''Audio'')))
           @ ustr '' ('' @ py_str (dict_get (ext f)) @ ustr '')'')"

text \<open>The loop of lines 111 to 122, appending to \<open>formats\<close>.\<close>

fun collect_formats :: "button list \<Rightarrow> fmt list \<Rightarrow> button list" where
  "collect_formats acc [] = acc"
| "collect_formats acc (f # fs) =
     (if \<not> truthy (dict_get (format_id f)) \<or> \<not> truthy (dict_get (ext f))
      then collect_formats acc fs
      else collect_formats (acc @ [(format_label f, dict_get (format_id f))]) fs)"

text \<open>Lines 110 to 128: the keyboard built from the probed metadata.\<close>

definition menu_keyboard :: "info \<Rightarrow> keyboard" where
  "menu_keyboard meta =
     map (\<lambda>(label, fid). [(label, fid)])
       (take 15 (collect_formats [] (dict_get_default (formats meta) [])))"

definition is_youtube_link :: "pystr \<Rightarrow> bool" where
  "is_youtube_link t =
     (sublist (ustr ''youtube.com'') t \<or> sublist (ustr ''youtu.be'') t)"

definition handle_youtube_link :: "env \<Rightarrow> message \<Rightarrow> unit M" where
  "handle_youtube_link E m =
     (let uid = effective_user_id m; t = strip (message_text m) in
      if \<not> is_youtube_link t then tg E (ReplyText invalid_link_text False None)
      else
        bindM (tg E (ReplyText analyzing_text False None)) (\<lambda>_.
          try_except
            (bindM (ydl_probe E t) (\<lambda>meta.
             bindM (put_session uid \<lparr>link = t, info = meta\<rparr>) (\<lambda>_.
             let kb = menu_keyboard meta in
             bindM (subscript (title meta) ''title'') (\<lambda>ti.
             tg E (ReplyText (menu_text ti) True (Some kb))))))
            (\<lambda>e. bindM (emit (LogError (ustr ''Format error: '' @ exn_str e))) (\<lambda>_.
                 tg E (ReplyText (probe_failed_text e) False None)))))"

subsection \<open>main\<close>

text \<open>
  The updates the three registered handlers receive: a \<open>/start\<close> command
  (\<open>CommandHandler("start", start)\<close>), a callback query
  (\<open>CallbackQueryHandler(format_selected)\<close>, registered with no pattern, so every
  callback query is its own), a text message that is no command and carries a link entity
  (the \<open>MessageHandler\<close>), and every other update, which no handler takes.
  An exception that leaves a handler is recorded by the dispatcher, which goes on.
\<close>

datatype update =
    StartCommand message
  | CallbackQuery callback_query
  | LinkMessage message
  | OtherUpdate

definition route :: "env \<Rightarrow> update \<Rightarrow> unit M" where
  "route E u =
     (case u of
        StartCommand m \<Rightarrow> start E m
      | CallbackQuery q \<Rightarrow> format_selected E q
      | LinkMessage m \<Rightarrow> handle_youtube_link E m
      | OtherUpdate \<Rightarrow> returnM ())"

definition process_update :: "env \<Rightarrow> update \<Rightarrow> state \<Rightarrow> state" where
  "process_update E u s =
     (case route E u s of
        (Inl e, s') \<Rightarrow> s'\<lparr>trace := trace s' @ [Uncaught e]\<rparr>
      | (Inr _, s') \<Rightarrow> s')"

text \<open>The process starts with an empty \<open>user_context\<close> and polls for updates.\<close>

definition initial_state :: state where
  "initial_state = \<lparr>user_context = Map.empty, trace = [], tmpdirs = []\<rparr>"

definition main :: "env \<Rightarrow> update list \<Rightarrow> state" where
  "main E us =
     foldl (\<lambda>s u. process_update E u s)
       (initial_state\<lparr>trace := [LogInfo ([0x2705] @ ustr '' Bot started successfully'')]\<rparr>) us"

section \<open>Reference notions and scenarios\<close>

text \<open>
  A field of a descriptor counts as present when it holds a non-empty string: an absent
  key, \<open>None\<close> and the empty string all count as missing.
\<close>

fun present :: "pyval option \<Rightarrow> bool" where
  "present None = False"
| "present (Some PyNone) = False"
| "present (Some (PyStr s)) = (s \<noteq> [])"

text \<open>
  A probe result with a video format, a descriptor without extension and an audio-only
  format.
\<close>

definition scenario_info :: info where
  "scenario_info =
     \<lparr>formats = Some
        [\<lparr>format_id = Some (PyStr (ustr ''22'')), ext = Some (PyStr (ustr ''mp4'')),
          vcodec = Some (PyStr (ustr ''avc1'')), format_note = Some (PyStr (ustr ''720p''))\<rparr>,
         \<lparr>format_id = Some (PyStr (ustr ''sb0'')), ext = None,
          vcodec = None, format_note = None\<rparr>,
         \<lparr>format_id = Some (PyStr (ustr ''251'')), ext = Some (PyStr (ustr ''webm'')),
          vcodec = Some (PyStr (ustr ''none'')), format_note = None\<rparr>],
      title = Some (PyStr (ustr ''Clip'')), uploader = Some (PyStr (ustr ''Someone''))\<rparr>"

text \<open>
  The extension of a path: its last dot and what follows it, and the empty string for a
  path with no dot.
\<close>

definition spec_extension :: "pystr \<Rightarrow> pystr" where
  "spec_extension p =
     (if 46 \<in> set p then 46 # rev (takeWhile (\<lambda>c. c \<noteq> 46) (rev p)) else [])"

text \<open>
  A progress report that the hook shows: its status is \<open>'downloading'\<close>.
\<close>

definition is_downloading :: "progress \<Rightarrow> bool" where
  "is_downloading d = (status d = Some (ustr ''downloading''))"

text \<open>
  The steps of the downloader, numbered in the order the specification lists them:
  the in-progress edit (0), the temporary directory (1), the download (2) and the
  edits of its progress callback (3), the file name (4), opening and sending the file
  (5, 6), the release of the directory (7), the deletion of the session (8) and the
  completion edit (9); then the failure path, the log entry (10) and the failure
  message (11). Events of the other handlers are numbered 12.
\<close>

fun phase :: "event \<Rightarrow> nat" where
  "phase (Tg (EditText t)) =
     (if t = downloading_text then 0 else if t = complete_text then 9 else 11)"
| "phase (TmpDir d) = 1"
| "phase (Download f t u) = 2"
| "phase (Tg (EditProgress r)) = 3"
| "phase PrepareFilename = 4"
| "phase (OpenFile p) = 5"
| "phase (Tg (ReplyAudio p t u)) = 6"
| "phase (Tg (ReplyVideo p c)) = 6"
| "phase (Cleanup d) = 7"
| "phase (DelSession u) = 8"
| "phase (LogError m) = 10"
| "phase ev = 12"

text \<open>
  \<open>emits lo hi m\<close>: the statement \<open>m\<close> only appends events to the trace, their steps
  lie between \<open>lo\<close> and \<open>hi\<close> and never decrease, and it leaves the set of live
  temporary directories as it found it. \<open>keeps_context m\<close>: it leaves \<open>user_context\<close>
  as it found it.
\<close>

definition emits :: "nat \<Rightarrow> nat \<Rightarrow> 'a M \<Rightarrow> bool" where
  "emits lo hi m =
     (\<forall>s. \<exists>evs. trace (snd (m s)) = trace s @ evs \<and> tmpdirs (snd (m s)) = tmpdirs s
        \<and> sorted (map phase evs) \<and> (\<forall>ev \<in> set evs. lo \<le> phase ev \<and> phase ev \<le> hi))"

definition keeps_context :: "'a M \<Rightarrow> bool" where
  "keeps_context m = (\<forall>s. user_context (snd (m s)) = user_context s)"

text \<open>
  Lines 46 to 77 of \<open>format_selected\<close>: the steps up to and including the dispatch
  of the file, before the session is deleted.
\<close>

definition download_and_dispatch :: "env \<Rightarrow> callback_query \<Rightarrow> unit M" where
  "download_and_dispatch E query =
     bindM (tg E (EditText downloading_text))
       (\<lambda>_. with_tmpdir E (download_block E (from_user_id query) (data query)))"

text \<open>
  A run in which every external call succeeds: the library reports one chunk at half
  of the file and then the end of the download, and writes a video file. In
  \<open>flaky_env\<close> the transport refuses the completion edit; in \<open>broken_env\<close> the
  download raises after its first report.
\<close>

definition progress_half :: progress where
  "progress_half = \<lparr>status = Some (ustr ''downloading''),
     downloaded_bytes = Some (NumInt 512), total_bytes = Some (NumInt 1024)\<rparr>"

definition progress_done :: progress where
  "progress_done = \<lparr>status = Some (ustr ''finished''),
     downloaded_bytes = Some (NumInt 1024), total_bytes = Some (NumInt 1024)\<rparr>"

definition ok_env :: env where
  "ok_env =
     \<lparr>transport = (\<lambda>tr c. None),
      probe_result = (\<lambda>url. Inr scenario_info),
      download_result = (\<lambda>fid outtmpl url. ([progress_half, progress_done], Inr scenario_info)),
      prepare_filename = (\<lambda>outtmpl meta. Inr (ustr ''/tmp/dl/abc.mp4'')),
      open_rb = (\<lambda>path. None),
      mkdtemp = (\<lambda>tr. Inr (ustr ''/tmp/dl''))\<rparr>"

definition flaky_env :: env where
  "flaky_env =
     ok_env\<lparr>transport :=
       (\<lambda>tr c. if c = EditText complete_text then Some (ExternalError (ustr ''Timed out''))
               else None)\<rparr>"

definition broken_env :: env where
  "broken_env =
     ok_env\<lparr>download_result :=
       (\<lambda>fid outtmpl url. ([progress_half], Inl (ExternalError (ustr ''HTTP Error 403''))))\<rparr>"

definition scenario_session :: session where
  "scenario_session = \<lparr>link = ustr ''https://youtu.be/abc'', info = scenario_info\<rparr>"

definition scenario_state :: state where
  "scenario_state =
     \<lparr>user_context = [7 \<mapsto> scenario_session], trace = [], tmpdirs = []\<rparr>"

definition scenario_query :: callback_query where
  "scenario_query = \<lparr>from_user_id = 7, data = ustr ''22''\<rparr>"

text \<open>
  Link messages: one with a link and white space around it, one without a link, and a
  second link of the same user. The probe succeeds in \<open>ok_env\<close> and raises in
  \<open>failing_env\<close>; in \<open>untitled_env\<close> it returns metadata with no title, in
  \<open>refusing_env\<close> the transport refuses every message that carries a keyboard, and in
  \<open>second_env\<close> the probe returns other metadata. \<open>start_query\<close> is the press of the
  button of the welcome message.
\<close>

definition scenario_message :: message where
  "scenario_message = \<lparr>effective_user_id = 7, message_text = ustr ''  https://youtu.be/abc ''\<rparr>"

definition plain_message :: message where
  "plain_message = \<lparr>effective_user_id = 7, message_text = ustr ''hello there''\<rparr>"

definition second_message :: message where
  "second_message =
     \<lparr>effective_user_id = 7, message_text = ustr ''https://www.youtube.com/watch?v=xyz''\<rparr>"

definition failing_env :: env where
  "failing_env = ok_env\<lparr>probe_result := (\<lambda>url. Inl (ExternalError (ustr ''Video unavailable'')))\<rparr>"

definition untitled_info :: info where
  "untitled_info = scenario_info\<lparr>title := None\<rparr>"

definition untitled_env :: env where
  "untitled_env = ok_env\<lparr>probe_result := (\<lambda>url. Inr untitled_info)\<rparr>"

definition refusing_env :: env where
  "refusing_env =
     ok_env\<lparr>transport :=
       (\<lambda>tr c. case c of
          ReplyText t md (Some kb) \<Rightarrow> Some (ExternalError (ustr ''Button_data_invalid''))
        | _ \<Rightarrow> None)\<rparr>"

definition second_info :: info where
  "second_info = \<lparr>formats = None, title = Some (PyStr (ustr ''Other'')), uploader = None\<rparr>"

definition second_env :: env where
  "second_env = ok_env\<lparr>probe_result := (\<lambda>url. Inr second_info)\<rparr>"

definition start_query :: callback_query where
  "start_query = \<lparr>from_user_id = 7, data = ustr ''start''\<rparr>"

text \<open>
  A progress report that the hook handles without raising: it has a status, and when
  the status is \<open>'downloading'\<close> its byte counts can be divided. \<open>report_quotients\<close>
  lists, in order, the quotients the hook shows for the reports of a download.
\<close>

definition report_ok :: "progress \<Rightarrow> bool" where
  "report_ok r =
     (case status r of
        None \<Rightarrow> False
      | Some st \<Rightarrow>
          st \<noteq> ustr ''downloading''
          \<or> (case py_truediv (dict_get_default (downloaded_bytes r) (NumInt 0))
                             (dict_get_default (total_bytes r) (NumInt 1)) of
                Inl e \<Rightarrow> False | Inr x \<Rightarrow> True))"

fun report_quotients :: "progress list \<Rightarrow> rat list" where
  "report_quotients [] = []"
| "report_quotients (r # rs) =
     (if is_downloading r
      then (case py_truediv (dict_get_default (downloaded_bytes r) (NumInt 0))
                            (dict_get_default (total_bytes r) (NumInt 1)) of
              Inl e \<Rightarrow> report_quotients rs | Inr x \<Rightarrow> x # report_quotients rs)
      else report_quotients rs)"

section \<open>The menu renderer\<close>

lemma truthy_dict_get: "truthy (dict_get v) = present v"
  by (cases v rule: present.cases) (simp_all add: dict_get_def)

lemma present_dict_get: "present v \<Longrightarrow> \<exists>s. dict_get v = PyStr s \<and> s \<noteq> []"
  by (cases v rule: present.cases) (simp_all add: dict_get_def)

lemma collect_formats_filter:
  "collect_formats acc fs =
     acc @ map (\<lambda>f. (format_label f, dict_get (format_id f)))
             (filter (\<lambda>f. present (format_id f) \<and> present (ext f)) fs)"
  by (induction fs arbitrary: acc) (simp_all add: truthy_dict_get)

lemma format_label_hd:
  "hd (format_label f) =
     (if vcodec f = Some (PyStr (ustr ''none'')) then audio_glyph else video_glyph)"
  by (cases "vcodec f") (auto simp: format_label_def dict_get_def)

lemma format_label_nonempty: "format_label f \<noteq> []"
  by (simp add: format_label_def)

text \<open>
  C2. The keyboard holds one button for each descriptor whose format identifier and
  extension are both present, in the order of the descriptor list, cut after the first
  15; so it has at most 15 rows, each one button with a non-empty label and a non-empty
  format identifier. A label starts with the audio glyph when the video codec is
  \<open>'none'\<close> and with the video glyph otherwise.
\<close>

theorem menu_keyboard_rendering:
  "menu_keyboard meta =
     map (\<lambda>f. [(format_label f, dict_get (format_id f))])
       (take 15 (filter (\<lambda>f. present (format_id f) \<and> present (ext f))
                   (dict_get_default (formats meta) [])))
   \<and> length (menu_keyboard meta) \<le> 15
   \<and> (\<forall>row \<in> set (menu_keyboard meta).
         \<exists>label fid. row = [(label, PyStr fid)] \<and> label \<noteq> [] \<and> fid \<noteq> [])
   \<and> (\<forall>f. hd (format_label f) =
         (if vcodec f = Some (PyStr (ustr ''none'')) then audio_glyph else video_glyph))"
proof -
  let ?kept = "filter (\<lambda>f. present (format_id f) \<and> present (ext f))
                 (dict_get_default (formats meta) [])"
  have eq: "menu_keyboard meta =
      map (\<lambda>f. [(format_label f, dict_get (format_id f))]) (take 15 ?kept)"
    by (simp add: menu_keyboard_def collect_formats_filter take_map)
  have len: "length (menu_keyboard meta) \<le> 15"
    by (simp add: eq)
  have rows: "\<exists>label fid. row = [(label, PyStr fid)] \<and> label \<noteq> [] \<and> fid \<noteq> []"
    if "row \<in> set (menu_keyboard meta)" for row
  proof -
    from that obtain f where f: "f \<in> set (take 15 ?kept)"
      and row: "row = [(format_label f, dict_get (format_id f))]"
      unfolding eq by auto
    from f have "f \<in> set ?kept" by (rule in_set_takeD)
    then have "present (format_id f)" by simp
    then obtain i where "dict_get (format_id f) = PyStr i" "i \<noteq> []"
      using present_dict_get by blast
    with row format_label_nonempty show ?thesis by auto
  qed
  show ?thesis using eq len rows format_label_hd by blast
qed

theorem menu_keyboard_rendering_witness:
  "menu_keyboard scenario_info =
     [[([video_glyph] @ ustr '' 720p (mp4)'', PyStr (ustr ''22''))],
      [([audio_glyph] @ ustr '' Audio (webm)'', PyStr (ustr ''251''))]]
   \<and> length (menu_keyboard scenario_info) \<le> 15"
  using menu_keyboard_rendering [of scenario_info]
  by (simp add: scenario_info_def dict_get_default_def dict_get_def format_label_def ustr_def)

section \<open>File extensions\<close>

lemma suffix_dot_extension:
  assumes "46 \<notin> set r"
  shows "suffix (46 # r) p \<longleftrightarrow> spec_extension p = 46 # r"
proof
  assume "suffix (46 # r) p"
  then obtain zs where p: "p = zs @ 46 # r" by (auto simp: suffix_def)
  have "takeWhile (\<lambda>c. c \<noteq> 46) (rev r @ 46 # rev zs) = rev r"
    using assms by (subst takeWhile_append2) auto
  then show "spec_extension p = 46 # r"
    by (simp add: spec_extension_def p)
next
  assume e: "spec_extension p = 46 # r"
  then have mem: "46 \<in> set p" and r: "r = rev (takeWhile (\<lambda>c. c \<noteq> 46) (rev p))"
    by (auto simp: spec_extension_def split: if_splits)
  have "dropWhile (\<lambda>c. c \<noteq> 46) (rev p) \<noteq> []" using mem by (simp add: dropWhile_eq_Nil_conv)
  moreover have "hd (dropWhile (\<lambda>c. c \<noteq> 46) (rev p)) = 46"
    using mem hd_dropWhile [of "\<lambda>c. c \<noteq> 46" "rev p"] calculation by auto 
  ultimately obtain ys where d: "dropWhile (\<lambda>c. c \<noteq> 46) (rev p) = 46 # ys"
    by (cases "dropWhile (\<lambda>c. c \<noteq> 46) (rev p)") auto
  have "rev p = takeWhile (\<lambda>c. c \<noteq> 46) (rev p) @ 46 # ys"
    using takeWhile_dropWhile_id [of "\<lambda>c. c \<noteq> 46" "rev p"] d by simp
  then have "rev (rev p) = rev (takeWhile (\<lambda>c. c \<noteq> 46) (rev p) @ 46 # ys)" by simp
  then have "p = rev ys @ 46 # r" using r by simp
  then show "suffix (46 # r) p" by (auto simp: suffix_def)
qed

lemma endswith_any_extension:
  "endswith_any p audio_exts \<longleftrightarrow> spec_extension p \<in> set audio_exts"
proof -
  have "suffix (ustr s) p \<longleftrightarrow> spec_extension p = ustr s"
    if "s \<in> {''.mp3'', ''.m4a'', ''.opus'', ''.webm''}" for s
    using that suffix_dot_extension [of "tl (ustr s)" p] by (auto simp: ustr_def)
  then show ?thesis
    by (simp add: endswith_any_def audio_exts_def endswith_def)
qed

section \<open>Statements and the events they append\<close>

lemma emitsI:
  assumes "\<And>s. \<exists>evs. trace (snd (m s)) = trace s @ evs \<and> tmpdirs (snd (m s)) = tmpdirs s
        \<and> sorted (map phase evs) \<and> (\<forall>ev \<in> set evs. lo \<le> phase ev \<and> phase ev \<le> hi)"
  shows "emits lo hi m"
  using assms unfolding emits_def by blast

lemma emitsD:
  assumes "emits lo hi m"
  obtains evs where "trace (snd (m s)) = trace s @ evs" "tmpdirs (snd (m s)) = tmpdirs s"
    "sorted (map phase evs)" "\<And>ev. ev \<in> set evs \<Longrightarrow> lo \<le> phase ev \<and> phase ev \<le> hi"
  using assms unfolding emits_def by blast

lemma emits_silent:
  assumes "\<And>s. snd (m s) = s"
  shows "emits lo hi m"
  by (rule emitsI) (simp add: assms)

lemma emits_returnM: "emits lo hi (returnM x)"
  by (rule emits_silent) (simp add: returnM_def)

lemma emits_raiseM: "emits lo hi (raiseM e)"
  by (rule emits_silent) (simp add: raiseM_def)

lemma emits_lift_result: "emits lo hi (lift_result r)"
  by (rule emits_silent) (simp add: lift_result_def)

lemma emits_subscript: "emits lo hi (subscript v k)"
  by (cases v) (simp_all add: subscript_def emits_returnM emits_raiseM)

lemma emits_get_session: "emits lo hi (get_session uid)"
  by (rule emits_silent) (simp add: get_session_def split: option.splits)

lemma emits_emit: "lo \<le> phase ev \<Longrightarrow> phase ev \<le> hi \<Longrightarrow> emits lo hi (emit ev)"
  by (rule emitsI) (simp add: emit_def)

lemma emits_tg: "lo \<le> phase (Tg c) \<Longrightarrow> phase (Tg c) \<le> hi \<Longrightarrow> emits lo hi (tg E c)"
  by (rule emitsI) (simp add: tg_def split: option.splits)

lemma emits_del_session: "emits 8 8 (del_session uid)"
  by (rule emitsI) (simp add: del_session_def split: option.splits)

lemma emits_mono: "emits lo hi m \<Longrightarrow> lo' \<le> lo \<Longrightarrow> hi \<le> hi' \<Longrightarrow> emits lo' hi' m"
  unfolding emits_def by (meson order_trans)

lemma emits_bindM:
  assumes m: "emits lo mid m" and k: "\<And>x. emits mid hi (k x)" and le: "lo \<le> mid" "mid \<le> hi"
  shows "emits lo hi (bindM m k)"
proof (rule emitsI)
  fix s
  obtain r s1 where ms: "m s = (r, s1)" by (cases "m s")
  from emitsD [OF m, of s] ms obtain evs1 where
    1: "trace s1 = trace s @ evs1" "tmpdirs s1 = tmpdirs s" "sorted (map phase evs1)"
       "\<And>ev. ev \<in> set evs1 \<Longrightarrow> lo \<le> phase ev \<and> phase ev \<le> mid"
    by (metis snd_conv)
  show "\<exists>evs. trace (snd (bindM m k s)) = trace s @ evs
          \<and> tmpdirs (snd (bindM m k s)) = tmpdirs s
          \<and> sorted (map phase evs) \<and> (\<forall>ev \<in> set evs. lo \<le> phase ev \<and> phase ev \<le> hi)"
  proof (cases r)
    case (Inl e)
    then have "bindM m k s = (Inl e, s1)" by (simp add: bindM_def ms)
    with 1 le show ?thesis by (intro exI [of _ evs1]) fastforce
  next
    case (Inr x)
    then have b: "bindM m k s = k x s1" by (simp add: bindM_def ms)
    from emitsD [OF k, of x s1] obtain evs2 where
      2: "trace (snd (k x s1)) = trace s1 @ evs2" "tmpdirs (snd (k x s1)) = tmpdirs s1"
         "sorted (map phase evs2)"
         "\<And>ev. ev \<in> set evs2 \<Longrightarrow> mid \<le> phase ev \<and> phase ev \<le> hi"
      by blast
    have "sorted (map phase (evs1 @ evs2))"
      using 1(3,4) 2(3,4) by (fastforce simp: sorted_append)
    moreover have "\<forall>ev \<in> set (evs1 @ evs2). lo \<le> phase ev \<and> phase ev \<le> hi"
      using 1(4) 2(4) le by fastforce
    ultimately show ?thesis
      using 1(1,2) 2(1,2) b by (intro exI [of _ "evs1 @ evs2"]) simp
  qed
qed

lemma emits_try_except:
  assumes m: "emits lo mid body" and k: "\<And>e. emits mid hi (h e)" and le: "lo \<le> mid" "mid \<le> hi"
  shows "emits lo hi (try_except body h)"
proof (rule emitsI)
  fix s
  obtain r s1 where ms: "body s = (r, s1)" by (cases "body s")
  from emitsD [OF m, of s] ms obtain evs1 where
    1: "trace s1 = trace s @ evs1" "tmpdirs s1 = tmpdirs s" "sorted (map phase evs1)"
       "\<And>ev. ev \<in> set evs1 \<Longrightarrow> lo \<le> phase ev \<and> phase ev \<le> mid"
    by (metis snd_conv)
  show "\<exists>evs. trace (snd (try_except body h s)) = trace s @ evs
          \<and> tmpdirs (snd (try_except body h s)) = tmpdirs s
          \<and> sorted (map phase evs) \<and> (\<forall>ev \<in> set evs. lo \<le> phase ev \<and> phase ev \<le> hi)"
  proof (cases r)
    case (Inr x)
    then have "try_except body h s = (Inr x, s1)" by (simp add: try_except_def ms)
    with 1 le show ?thesis by (intro exI [of _ evs1]) fastforce
  next
    case (Inl e)
    then have b: "try_except body h s = h e s1" by (simp add: try_except_def ms)
    from emitsD [OF k, of e s1] obtain evs2 where
      2: "trace (snd (h e s1)) = trace s1 @ evs2" "tmpdirs (snd (h e s1)) = tmpdirs s1"
         "sorted (map phase evs2)"
         "\<And>ev. ev \<in> set evs2 \<Longrightarrow> mid \<le> phase ev \<and> phase ev \<le> hi"
      by blast
    have "sorted (map phase (evs1 @ evs2))"
      using 1(3,4) 2(3,4) by (fastforce simp: sorted_append)
    moreover have "\<forall>ev \<in> set (evs1 @ evs2). lo \<le> phase ev \<and> phase ev \<le> hi"
      using 1(4) 2(4) le by fastforce
    ultimately show ?thesis
      using 1(1,2) 2(1,2) b by (intro exI [of _ "evs1 @ evs2"]) simp
  qed
qed

lemma emits_with_tmpdir:
  assumes body: "\<And>d. emits 2 6 (body d)"
  shows "emits 1 7 (with_tmpdir E body)"
proof (rule emitsI)
  fix s
  show "\<exists>evs. trace (snd (with_tmpdir E body s)) = trace s @ evs
          \<and> tmpdirs (snd (with_tmpdir E body s)) = tmpdirs s
          \<and> sorted (map phase evs) \<and> (\<forall>ev \<in> set evs. 1 \<le> phase ev \<and> phase ev \<le> 7)"
  proof (cases "mkdtemp E (trace s)")
    case (Inl e)
    then show ?thesis by (simp add: with_tmpdir_def)
  next
    case (Inr d)
    let ?s0 = "s\<lparr>trace := trace s @ [TmpDir d], tmpdirs := d # tmpdirs s\<rparr>"
    obtain r s1 where b: "body d ?s0 = (r, s1)" by (cases "body d ?s0")
    from emitsD [OF body, of d ?s0] b obtain evs where
      1: "trace s1 = trace ?s0 @ evs" "tmpdirs s1 = tmpdirs ?s0" "sorted (map phase evs)"
         "\<And>ev. ev \<in> set evs \<Longrightarrow> 2 \<le> phase ev \<and> phase ev \<le> 6"
      by (metis snd_conv)
    have w: "with_tmpdir E body s =
        (r, s1\<lparr>trace := trace s1 @ [Cleanup d], tmpdirs := remove1 d (tmpdirs s1)\<rparr>)"
      by (simp add: with_tmpdir_def Inr b)
    have "sorted (map phase (TmpDir d # evs @ [Cleanup d]))"
      using 1(3,4) by (fastforce simp: sorted_append)
    moreover have "\<forall>ev \<in> set (TmpDir d # evs @ [Cleanup d]). 1 \<le> phase ev \<and> phase ev \<le> 7"
      using 1(4) by fastforce
    ultimately show ?thesis
      using 1(1,2) w by (intro exI [of _ "TmpDir d # evs @ [Cleanup d]"]) simp
  qed
qed

lemma keeps_context_bindM:
  "keeps_context m \<Longrightarrow> (\<And>x. keeps_context (k x)) \<Longrightarrow> keeps_context (bindM m k)"
  unfolding keeps_context_def bindM_def
  by (auto split: prod.splits sum.splits) (metis snd_conv)+

lemma keeps_context_silent: "(\<And>s. snd (m s) = s) \<Longrightarrow> keeps_context m"
  by (simp add: keeps_context_def)

lemma keeps_context_prims:
  "keeps_context (returnM x)" "keeps_context (raiseM e)" "keeps_context (lift_result r)"
  "keeps_context (subscript v k)" "keeps_context (get_session uid)"
  "keeps_context (emit ev)" "keeps_context (tg E c)"
  by (auto simp: keeps_context_def returnM_def raiseM_def lift_result_def subscript_def
        get_session_def emit_def tg_def split: option.splits)

lemma keeps_context_with_tmpdir:
  assumes "\<And>d. keeps_context (body d)"
  shows "keeps_context (with_tmpdir E body)"
  unfolding keeps_context_def
proof
  fix s
  show "user_context (snd (with_tmpdir E body s)) = user_context s"
  proof (cases "mkdtemp E (trace s)")
    case (Inl e)
    then show ?thesis by (simp add: with_tmpdir_def)
  next
    case (Inr d)
    let ?s0 = "s\<lparr>trace := trace s @ [TmpDir d], tmpdirs := d # tmpdirs s\<rparr>"
    have "user_context (snd (body d ?s0)) = user_context ?s0"
      using assms [of d] by (simp add: keeps_context_def)
    then show ?thesis by (auto simp: with_tmpdir_def Inr split: prod.splits)
  qed
qed

lemma bindM_Inr:
  assumes "bindM m k s = (Inr y, s')"
  obtains x s1 where "m s = (Inr x, s1)" "k x s1 = (Inr y, s')"
  using assms by (auto simp: bindM_def split: prod.splits sum.splits)

lemma tg_Inr: "tg E c s = (Inr x, s') \<Longrightarrow> s' = s\<lparr>trace := trace s @ [Tg c]\<rparr>"
  by (auto simp: tg_def split: option.splits)

lemma emit_Inr: "emit ev s = (r, s') \<Longrightarrow> s' = s\<lparr>trace := trace s @ [ev]\<rparr>"
  by (auto simp: emit_def)

lemma lift_result_Inr: "lift_result r s = (Inr x, s') \<Longrightarrow> s' = s \<and> r = Inr x"
  by (auto simp: lift_result_def)

lemma subscript_Inr: "subscript v k s = (Inr x, s') \<Longrightarrow> s' = s \<and> v = Some x"
  by (cases v) (auto simp: subscript_def raiseM_def returnM_def)

lemma with_tmpdir_Inr:
  assumes "with_tmpdir E body s = (Inr x, s')"
  obtains d s1 where "mkdtemp E (trace s) = Inr d"
    "body d (s\<lparr>trace := trace s @ [TmpDir d], tmpdirs := d # tmpdirs s\<rparr>) = (Inr x, s1)"
    "trace s' = trace s1 @ [Cleanup d]" "user_context s' = user_context s1"
  using assms by (auto simp: with_tmpdir_def split: sum.splits prod.splits)

section \<open>The downloader\<close>

text \<open>
  Each block of \<open>format_selected\<close> appends its events in the order of the steps.
\<close>

lemma emits_progress_hook: "emits 3 3 (progress_hook E d)"
  unfolding progress_hook_def
  by (intro emits_bindM [where mid = 3] emits_subscript) 
     (auto intro!: emits_bindM [where mid = 3] emits_lift_result emits_tg emits_returnM)

lemma emits_run_hooks: "emits 3 3 (run_hooks E ds)"
  by (induction ds) (auto intro!: emits_returnM emits_bindM [where mid = 3] emits_progress_hook)

lemma emits_ydl_download: "emits 2 3 (ydl_download E fid outtmpl url)"
  unfolding ydl_download_def
  by (intro emits_bindM [where mid = 3] emits_bindM [where mid = 2 and hi = 3 and lo = 2] emits_emit)
    (auto intro!: emits_run_hooks emits_lift_result)

lemma emits_open_file: "emits 5 5 (open_file E p)"
  unfolding open_file_def
  by (intro emits_bindM [where mid = 5] emits_emit)
     (auto intro!: emits_returnM emits_raiseM split: option.splits)

lemma emits_send_file: "emits 5 6 (send_file E p meta)"
  unfolding send_file_def
  by (auto intro!: emits_bindM [where lo = 5 and mid = 5 and hi = 6]
        emits_mono [OF emits_open_file] emits_subscript emits_tg)

lemma emits_ydl_prepare_filename: "emits 4 4 (ydl_prepare_filename E outtmpl meta)"
  unfolding ydl_prepare_filename_def
  by (intro emits_bindM [where mid = 4] emits_emit) (auto intro!: emits_lift_result)

lemma emits_download_block: "emits 2 6 (download_block E uid fid d)"
proof -
  have 1: "emits 4 6 (bindM (ydl_prepare_filename E outtmpl meta) (\<lambda>p. send_file E p meta))"
    for outtmpl meta
    by (intro emits_bindM [where mid = 5] emits_send_file
          emits_mono [OF emits_ydl_prepare_filename]) simp_all
  have 2: "emits 2 6 (bindM (ydl_download E fid outtmpl url) (\<lambda>meta.
             bindM (ydl_prepare_filename E outtmpl meta) (\<lambda>p. send_file E p meta)))"
    for outtmpl url
    by (intro emits_bindM [where mid = 4] emits_mono [OF emits_ydl_download] 1) simp_all
  show ?thesis
    unfolding download_block_def Let_def
    by (intro emits_bindM [where mid = 2] emits_get_session 2) simp_all
qed

lemma downloading_text_neq: "downloading_text \<noteq> complete_text"
  "download_failed_text e \<noteq> downloading_text" "download_failed_text e \<noteq> complete_text"
  by (simp_all add: downloading_text_def complete_text_def download_failed_text_def)

lemma emits_download_handler:
  "emits 10 11 (bindM (emit (LogError m)) (\<lambda>_. tg E (EditText (download_failed_text e))))"
  by (intro emits_bindM [where mid = 10] emits_emit emits_tg)
     (simp_all add: downloading_text_neq)

lemma emits_download_finish:
  "emits 8 9 (bindM (del_session uid) (\<lambda>_. tg E (EditText complete_text)))"
  by (intro emits_bindM [where mid = 8] emits_del_session emits_tg)
     (simp_all add: downloading_text_neq [symmetric])

lemma emits_download_try:
  "emits 1 9 (bindM (with_tmpdir E (download_block E uid fid)) (\<lambda>_.
             bindM (del_session uid) (\<lambda>_. tg E (EditText complete_text))))"
  by (rule emits_bindM [where mid = 8])
     (simp_all add: emits_download_finish emits_mono [OF emits_with_tmpdir] emits_download_block)

lemma emits_download_flow:
  "emits 0 11
     (bindM (tg E (EditText downloading_text)) (\<lambda>_.
        try_except
          (bindM (with_tmpdir E (download_block E uid fid)) (\<lambda>_.
           bindM (del_session uid) (\<lambda>_. tg E (EditText complete_text))))
          (\<lambda>e. bindM (emit (LogError (ustr ''Download error: '' @ exn_str e))) (\<lambda>_.
               tg E (EditText (download_failed_text e))))))"
  by (intro emits_bindM [where mid = 0] emits_tg emits_try_except [where mid = 10]
        emits_mono [OF emits_download_try] emits_download_handler
        emits_mono [OF emits_download_handler]) simp_all

lemma format_selected_session:
  assumes "user_context s (from_user_id q) = Some ses"
  shows "format_selected E q s =
     bindM (tg E (EditText downloading_text)) (\<lambda>_.
        try_except
          (bindM (with_tmpdir E (download_block E (from_user_id q) (data q))) (\<lambda>_.
           bindM (del_session (from_user_id q)) (\<lambda>_. tg E (EditText complete_text))))
          (\<lambda>e. bindM (emit (LogError (ustr ''Download error: '' @ exn_str e))) (\<lambda>_.
               tg E (EditText (download_failed_text e))))) s"
  using assms by (simp add: format_selected_def Let_def dom_def)

lemma format_selected_ordered:
  assumes "user_context s (from_user_id q) = Some ses"
  shows "\<exists>evs. trace (snd (format_selected E q s)) = trace s @ evs
           \<and> tmpdirs (snd (format_selected E q s)) = tmpdirs s
           \<and> sorted (map phase evs)"
  unfolding format_selected_session [OF assms]
  using emits_download_flow [of E "from_user_id q" "data q"] unfolding emits_def by blast

text \<open>
  No block before the deletion touches \<open>user_context\<close>.
\<close>

lemma keeps_context_run_hooks: "keeps_context (run_hooks E ds)"
  by (induction ds)
     (auto intro!: keeps_context_bindM keeps_context_prims simp: progress_hook_def)

lemma keeps_context_download_block: "keeps_context (download_block E uid fid d)"
  unfolding download_block_def Let_def ydl_download_def ydl_prepare_filename_def
    send_file_def open_file_def
  by (auto intro!: keeps_context_bindM keeps_context_prims keeps_context_run_hooks
           split: option.splits)

lemma keeps_context_download_handler:
  "keeps_context (bindM (emit (LogError m)) (\<lambda>_. tg E (EditText t)))"
  by (intro keeps_context_bindM keeps_context_prims)

lemma handler_result:
  "bindM (emit (LogError m)) (\<lambda>_. tg E (EditText t)) s = (r, s') \<Longrightarrow>
     trace s' = trace s @ [LogError m, Tg (EditText t)] \<and> user_context s' = user_context s"
  by (auto simp: bindM_def emit_def tg_def split: option.splits)

text \<open>
  What a block has appended when it returns without an exception.
\<close>

lemma progress_hook_Inr:
  assumes "progress_hook E d s = (Inr x, s')"
  shows "\<exists>qs. length qs = (if is_downloading d then 1 else 0)
           \<and> trace s' = trace s @ map (\<lambda>r. Tg (EditProgress r)) qs
           \<and> user_context s' = user_context s"
proof -
  from assms obtain st where st: "status d = Some st"
    by (cases "status d")
       (auto simp: progress_hook_def subscript_def bindM_def raiseM_def)
  show ?thesis
  proof (cases "st = ustr ''downloading''")
    case False
    with assms st have "s' = s"
      by (simp add: progress_hook_def subscript_def bindM_def returnM_def)
    with False st show ?thesis by (simp add: is_downloading_def)
  next
    case True
    with assms st obtain r where "tg E (EditProgress r) s = (Inr x, s')"
      by (auto simp: progress_hook_def subscript_def bindM_def returnM_def lift_result_def
               split: sum.splits)
    then have "s' = s\<lparr>trace := trace s @ [Tg (EditProgress r)]\<rparr>" by (rule tg_Inr)
    with True st show ?thesis by (intro exI [of _ "[r]"]) (simp add: is_downloading_def)
  qed
qed

lemma run_hooks_Inr:
  "run_hooks E ds s = (Inr x, s') \<Longrightarrow>
     \<exists>qs. length qs = length (filter is_downloading ds)
       \<and> trace s' = trace s @ map (\<lambda>r. Tg (EditProgress r)) qs
       \<and> user_context s' = user_context s"
proof (induction ds arbitrary: s)
  case Nil
  then show ?case by (simp add: returnM_def)
next
  case (Cons d ds)
  from Cons.prems obtain u s1 where
    h: "progress_hook E d s = (Inr u, s1)" and r: "run_hooks E ds s1 = (Inr x, s')"
    by (auto elim: bindM_Inr)
  from progress_hook_Inr [OF h] obtain qs1 where
    1: "length qs1 = (if is_downloading d then 1 else 0)"
       "trace s1 = trace s @ map (\<lambda>r. Tg (EditProgress r)) qs1"
       "user_context s1 = user_context s"
    by blast
  from Cons.IH [OF r] obtain qs2 where
    2: "length qs2 = length (filter is_downloading ds)"
       "trace s' = trace s1 @ map (\<lambda>r. Tg (EditProgress r)) qs2"
       "user_context s' = user_context s1"
    by blast
  from 1 2 show ?case by (intro exI [of _ "qs1 @ qs2"]) simp
qed

lemma send_file_Inr:
  assumes "send_file E p meta s = (Inr x, s')"
  shows "\<exists>c. ((\<exists>t u. c = ReplyAudio p t u) \<or> (\<exists>cap. c = ReplyVideo p cap))
           \<and> trace s' = trace s @ [OpenFile p, Tg c]"
proof (cases "endswith_any p audio_exts")
  case True
  with assms obtain t u s1 where "open_file E p s = (Inr (), s1)"
    "tg E (ReplyAudio p t u) s1 = (Inr x, s')"
    by (auto simp: send_file_def elim!: bindM_Inr dest!: subscript_Inr)
  moreover from this(1) have "s1 = s\<lparr>trace := trace s @ [OpenFile p]\<rparr>"
    by (auto simp: open_file_def returnM_def raiseM_def elim!: bindM_Inr dest!: emit_Inr
             split: option.splits)
  ultimately show ?thesis
    by (intro exI [of _ "ReplyAudio p t u"]) (auto dest!: tg_Inr)
next
  case False
  with assms obtain t s1 where "open_file E p s = (Inr (), s1)"
    "tg E (ReplyVideo p ([0x2705, 32] @ py_str t)) s1 = (Inr x, s')"
    by (auto simp: send_file_def elim!: bindM_Inr dest!: subscript_Inr)
  moreover from this(1) have "s1 = s\<lparr>trace := trace s @ [OpenFile p]\<rparr>"
    by (auto simp: open_file_def returnM_def raiseM_def elim!: bindM_Inr dest!: emit_Inr
             split: option.splits)
  ultimately show ?thesis
    by (intro exI [of _ "ReplyVideo p ([0x2705, 32] @ py_str t)"]) (auto dest!: tg_Inr)
qed

lemma download_block_Inr:
  assumes "download_block E uid fid d s = (Inr x, s')"
  shows "\<exists>ses qs p c.
           user_context s uid = Some ses
         \<and> length qs = length (filter is_downloading
              (fst (download_result E fid (os_path_join d (ustr ''%(id)s.%(ext)s'')) (link ses))))
         \<and> ((\<exists>t u. c = ReplyAudio p t u) \<or> (\<exists>cap. c = ReplyVideo p cap))
         \<and> trace s' = trace s
             @ [Download fid (os_path_join d (ustr ''%(id)s.%(ext)s'')) (link ses)]
             @ map (\<lambda>r. Tg (EditProgress r)) qs @ [PrepareFilename, OpenFile p, Tg c]"
proof -
  let ?o = "os_path_join d (ustr ''%(id)s.%(ext)s'')"
  from assms obtain ses s1 meta s2 p s3 where
    g: "get_session uid s = (Inr ses, s1)" and
    dl: "ydl_download E fid ?o (link ses) s1 = (Inr meta, s2)" and
    pf: "ydl_prepare_filename E ?o meta s2 = (Inr p, s3)" and
    sf: "send_file E p meta s3 = (Inr x, s')"
    unfolding download_block_def Let_def by (elim bindM_Inr) blast
  from g have ses: "user_context s uid = Some ses" and s1: "s1 = s"
    by (auto simp: get_session_def split: option.splits)
  from dl obtain s1a s1b where
    a: "emit (Download fid ?o (link ses)) s1 = (Inr (), s1a)" and
    b: "run_hooks E (fst (download_result E fid ?o (link ses))) s1a = (Inr (), s1b)" and
    c: "lift_result (snd (download_result E fid ?o (link ses))) s1b = (Inr meta, s2)"
    unfolding ydl_download_def by (elim bindM_Inr) auto
  from run_hooks_Inr [OF b] obtain qs where
    qs: "length qs = length (filter is_downloading (fst (download_result E fid ?o (link ses))))"
        "trace s1b = trace s1a @ map (\<lambda>r. Tg (EditProgress r)) qs"
    by blast
  from c have s2: "s2 = s1b" by (auto dest: lift_result_Inr)
  from pf have s3: "trace s3 = trace s2 @ [PrepareFilename]"
    unfolding ydl_prepare_filename_def
    by (elim bindM_Inr) (auto dest!: emit_Inr lift_result_Inr)
  from send_file_Inr [OF sf] obtain c where
    c: "(\<exists>t u. c = ReplyAudio p t u) \<or> (\<exists>cap. c = ReplyVideo p cap)"
       "trace s' = trace s3 @ [OpenFile p, Tg c]"
    by blast
  from emit_Inr [OF a] have "trace s1a = trace s1 @ [Download fid ?o (link ses)]" by simp
  with ses s1 qs s2 s3 c show ?thesis
    by (intro exI [of _ ses] exI [of _ qs] exI [of _ p] exI [of _ c]) simp
qed

text \<open>
  The two scenario runs, evaluated.
\<close>

lemmas flow_defs = format_selected_def download_block_def ydl_download_def
  ydl_prepare_filename_def send_file_def open_file_def with_tmpdir_def progress_hook_def
  bindM_def try_except_def returnM_def raiseM_def emit_def lift_result_def tg_def
  subscript_def get_session_def del_session_def put_session_def dict_get_default_def

lemmas path_defs = os_path_join_def endswith_any_def audio_exts_def endswith_def
  suffix_to_prefix ustr_def

lemma scenario_run_ok:
  "format_selected ok_env scenario_query scenario_state =
     (Inr (), \<lparr>user_context = Map.empty,
       trace = [Tg (EditText downloading_text), TmpDir (ustr ''/tmp/dl''),
                Download (ustr ''22'') (ustr ''/tmp/dl/%(id)s.%(ext)s'') (ustr ''https://youtu.be/abc''),
                Tg (EditProgress (1 / 2)), PrepareFilename, OpenFile (ustr ''/tmp/dl/abc.mp4''),
                Tg (ReplyVideo (ustr ''/tmp/dl/abc.mp4'') ([0x2705, 32] @ ustr ''Clip'')),
                Cleanup (ustr ''/tmp/dl''), DelSession 7, Tg (EditText complete_text)],
       tmpdirs = []\<rparr>)"
  by (simp add: flow_defs ok_env_def scenario_query_def scenario_state_def scenario_session_def
        path_defs progress_half_def progress_done_def scenario_info_def)

lemma scenario_run_flaky:
  "format_selected flaky_env scenario_query scenario_state =
     (Inr (), \<lparr>user_context = Map.empty,
       trace = [Tg (EditText downloading_text), TmpDir (ustr ''/tmp/dl''),
                Download (ustr ''22'') (ustr ''/tmp/dl/%(id)s.%(ext)s'') (ustr ''https://youtu.be/abc''),
                Tg (EditProgress (1 / 2)), PrepareFilename, OpenFile (ustr ''/tmp/dl/abc.mp4''),
                Tg (ReplyVideo (ustr ''/tmp/dl/abc.mp4'') ([0x2705, 32] @ ustr ''Clip'')),
                Cleanup (ustr ''/tmp/dl''), DelSession 7, Tg (EditText complete_text),
                LogError (ustr ''Download error: Timed out''),
                Tg (EditText (download_failed_text (ExternalError (ustr ''Timed out''))))],
       tmpdirs = []\<rparr>)"
  by (simp add: flow_defs flaky_env_def ok_env_def scenario_query_def scenario_state_def scenario_session_def
        path_defs progress_half_def progress_done_def scenario_info_def downloading_text_neq)

text \<open>
  C3. A button press of a user with no entry in \<open>user_context\<close>: the handler
  makes one call, the answer with the warning, and nothing else. The state afterwards
  is the state before with that call appended to the trace, so no download is started,
  no temporary directory is created and \<open>user_context\<close> is unchanged; the handler returns
  normally unless the answer itself raises.
\<close>

theorem format_selected_no_session:
  assumes "user_context s (from_user_id q) = None"
  shows "snd (format_selected E q s) = s\<lparr>trace := trace s @ [Tg (Answer no_session_text)]\<rparr>
       \<and> fst (format_selected E q s) =
           (case transport E (trace s) (Answer no_session_text) of
              None \<Rightarrow> Inr () | Some e \<Rightarrow> Inl e)"
  using assms by (simp add: format_selected_def Let_def dom_def tg_def split: option.splits)

theorem format_selected_no_session_witness:
  "user_context initial_state (from_user_id scenario_query) = None
   \<and> format_selected ok_env scenario_query initial_state =
       (Inr (), initial_state\<lparr>trace := [Tg (Answer no_session_text)]\<rparr>)"
  using format_selected_no_session [of initial_state scenario_query ok_env]
  by (simp add: initial_state_def ok_env_def prod_eq_iff)

text \<open>
  C1, as stated, fails: the completion edit is a step of the download attempt that
  comes after the deletion of the session. In this run the download and the dispatch
  succeed, the completion edit raises, the exception is caught and logged, and the
  session of the user is gone.
\<close>

theorem format_selected_completion_raises_counterexample:
  "user_context scenario_state 7 = Some scenario_session
   \<and> transport flaky_env [] (EditText complete_text) = Some (ExternalError (ustr ''Timed out''))
   \<and> trace (snd (format_selected flaky_env scenario_query scenario_state)) =
       [Tg (EditText downloading_text), TmpDir (ustr ''/tmp/dl''),
        Download (ustr ''22'') (ustr ''/tmp/dl/%(id)s.%(ext)s'') (ustr ''https://youtu.be/abc''),
        Tg (EditProgress (1 / 2)), PrepareFilename, OpenFile (ustr ''/tmp/dl/abc.mp4''),
        Tg (ReplyVideo (ustr ''/tmp/dl/abc.mp4'') ([0x2705, 32] @ ustr ''Clip'')),
        Cleanup (ustr ''/tmp/dl''), DelSession 7, Tg (EditText complete_text),
        LogError (ustr ''Download error: Timed out''),
        Tg (EditText (download_failed_text (ExternalError (ustr ''Timed out''))))]
   \<and> user_context (snd (format_selected flaky_env scenario_query scenario_state)) 7 = None"
  by (simp add: scenario_run_flaky) (simp add: scenario_state_def flaky_env_def)

text \<open>
  C1, amended. For a user with a session: when every step up to and including the
  dispatch of the file succeeds, the session of that user is deleted and the other
  sessions are kept, whatever the completion edit does afterwards; when one of these
  steps raises (the in-progress edit, the temporary directory, the download with its
  progress callback, the file name, opening or sending the file), \<open>user_context\<close> is
  left as it was, so the session is still present.
\<close>

theorem format_selected_session_fate:
  assumes "user_context s (from_user_id q) = Some ses"
  shows "user_context (snd (format_selected E q s)) =
           (case fst (download_and_dispatch E q s) of
              Inr _ \<Rightarrow> (user_context s)(from_user_id q := None)
            | Inl _ \<Rightarrow> user_context s)"
proof -
  let ?uid = "from_user_id q"
  let ?W = "with_tmpdir E (download_block E ?uid (data q))"
  let ?H = "\<lambda>e. bindM (emit (LogError (ustr ''Download error: '' @ exn_str e))) (\<lambda>_.
               tg E (EditText (download_failed_text e)))"
  let ?B = "bindM ?W (\<lambda>_. bindM (del_session ?uid) (\<lambda>_. tg E (EditText complete_text)))"
  have fs: "format_selected E q s =
      bindM (tg E (EditText downloading_text)) (\<lambda>_. try_except ?B ?H) s"
    by (rule format_selected_session [OF assms])
  have H: "user_context (snd (?H e t)) = user_context t" for e t
    using handler_result [of _ E _ t] by (metis prod.collapse)
  obtain r1 s1 where t1: "tg E (EditText downloading_text) s = (r1, s1)"
    by (cases "tg E (EditText downloading_text) s")
  then have c1: "user_context s1 = user_context s"
    by (auto simp: tg_def split: option.splits)
  show ?thesis
  proof (cases r1)
    case (Inl e)
    with t1 show ?thesis
      by (simp add: fs download_and_dispatch_def bindM_def c1)
  next
    case r1: (Inr u)
    obtain rw s2 where w: "?W s1 = (rw, s2)" by (cases "?W s1")
    have "keeps_context ?W"
      by (intro keeps_context_with_tmpdir keeps_context_download_block)
    with w have c2: "user_context s2 = user_context s1"
      by (metis keeps_context_def snd_conv)
    have dd: "download_and_dispatch E q s = (rw, s2)"
      by (simp add: download_and_dispatch_def bindM_def t1 r1 w)
    show ?thesis
    proof (cases rw)
      case (Inl e)
      then have "format_selected E q s = ?H e s2"
        by (simp add: fs bindM_def try_except_def t1 r1 w)
      with H [of e s2] Inl dd c1 c2 show ?thesis by simp
    next
      case rw: (Inr v)
      let ?s3 = "s2\<lparr>user_context := (user_context s2)(?uid := None),
                    trace := trace s2 @ [DelSession ?uid]\<rparr>"
      have d: "del_session ?uid s2 = (Inr (), ?s3)"
        using assms c1 c2 by (simp add: del_session_def)
      obtain r4 s4 where t4: "tg E (EditText complete_text) ?s3 = (r4, s4)"
        by (cases "tg E (EditText complete_text) ?s3")
      then have c4: "user_context s4 = (user_context s)(?uid := None)"
        using c1 c2 by (auto simp: tg_def split: option.splits)
      have "user_context (snd (format_selected E q s)) = user_context s4"
      proof (cases r4)
        case (Inl e)
        then have "format_selected E q s = ?H e s4"
          by (simp add: fs bindM_def try_except_def t1 r1 w rw d t4)
        with H [of e s4] show ?thesis by simp
      next
        case (Inr x)
        then have "format_selected E q s = (Inr x, s4)"
          by (simp add: fs bindM_def try_except_def t1 r1 w rw d t4)
        then show ?thesis by simp
      qed
      with c4 dd rw show ?thesis by simp
    qed
  qed
qed

theorem format_selected_session_fate_witness:
  "user_context scenario_state (from_user_id scenario_query) = Some scenario_session
   \<and> fst (download_and_dispatch ok_env scenario_query scenario_state) = Inr ()
   \<and> user_context (snd (format_selected ok_env scenario_query scenario_state)) 7 = None
   \<and> fst (download_and_dispatch broken_env scenario_query scenario_state) =
       Inl (ExternalError (ustr ''HTTP Error 403''))
   \<and> user_context (snd (format_selected broken_env scenario_query scenario_state)) 7 =
       Some scenario_session"
proof -
  have s: "user_context scenario_state (from_user_id scenario_query) = Some scenario_session"
    by (simp add: scenario_state_def scenario_query_def)
  have ok: "fst (download_and_dispatch ok_env scenario_query scenario_state) = Inr ()"
    by (simp add: download_and_dispatch_def flow_defs ok_env_def scenario_query_def
          scenario_state_def scenario_session_def path_defs progress_half_def
          progress_done_def scenario_info_def)
  have broken: "fst (download_and_dispatch broken_env scenario_query scenario_state) =
      Inl (ExternalError (ustr ''HTTP Error 403''))"
    by (simp add: download_and_dispatch_def flow_defs broken_env_def ok_env_def
          scenario_query_def scenario_state_def scenario_session_def path_defs
          progress_half_def)
  from format_selected_session_fate [OF s, of ok_env] ok
  have 1: "user_context (snd (format_selected ok_env scenario_query scenario_state)) 7 = None"
    by (simp add: scenario_query_def)
  from format_selected_session_fate [OF s, of broken_env] broken
  have 2: "user_context (snd (format_selected broken_env scenario_query scenario_state)) 7 =
      Some scenario_session"
    by (simp add: scenario_state_def)
  from s ok 1 broken 2 show ?thesis by simp
qed

lemma open_file_ok:
  "open_rb E p = None \<Longrightarrow> open_file E p s = (Inr (), s\<lparr>trace := trace s @ [OpenFile p]\<rparr>)"
  by (simp add: open_file_def bindM_def emit_def returnM_def)

text \<open>
  A run that ends with the completion edit has made every step.
\<close>

lemma format_selected_complete_run:
  assumes "user_context s (from_user_id q) = Some ses"
  shows "tmpdirs (snd (format_selected E q s)) = tmpdirs s
       \<and> (\<exists>evs. trace (snd (format_selected E q s)) = trace s @ evs
            \<and> sorted (map phase evs)
            \<and> (last evs = Tg (EditText complete_text) \<longrightarrow>
                (\<exists>d qs p c.
                   evs = [Tg (EditText downloading_text), TmpDir d,
                          Download (data q) (os_path_join d (ustr ''%(id)s.%(ext)s'')) (link ses)]
                         @ map (\<lambda>r. Tg (EditProgress r)) qs
                         @ [PrepareFilename, OpenFile p, Tg c, Cleanup d,
                            DelSession (from_user_id q), Tg (EditText complete_text)]
                 \<and> length qs = length (filter is_downloading
                      (fst (download_result E (data q)
                              (os_path_join d (ustr ''%(id)s.%(ext)s'')) (link ses))))
                 \<and> ((\<exists>t u. c = ReplyAudio p t u) \<or> (\<exists>cap. c = ReplyVideo p cap)))))"
proof -
  let ?uid = "from_user_id q"
  let ?W = "with_tmpdir E (download_block E ?uid (data q))"
  let ?H = "\<lambda>e. bindM (emit (LogError (ustr ''Download error: '' @ exn_str e))) (\<lambda>_.
               tg E (EditText (download_failed_text e)))"
  let ?B = "bindM ?W (\<lambda>_. bindM (del_session ?uid) (\<lambda>_. tg E (EditText complete_text)))"
  let ?R = "format_selected E q s"
  have fs: "?R = bindM (tg E (EditText downloading_text)) (\<lambda>_. try_except ?B ?H) s"
    by (rule format_selected_session [OF assms])
  from format_selected_ordered [OF assms] obtain evs where
    evs: "trace (snd ?R) = trace s @ evs" "tmpdirs (snd ?R) = tmpdirs s"
         "sorted (map phase evs)"
    by blast
  let ?s1 = "s\<lparr>trace := trace s @ [Tg (EditText downloading_text)]\<rparr>"
  have complete: "\<exists>d qs p c.
        evs = [Tg (EditText downloading_text), TmpDir d,
               Download (data q) (os_path_join d (ustr ''%(id)s.%(ext)s'')) (link ses)]
              @ map (\<lambda>r. Tg (EditProgress r)) qs
              @ [PrepareFilename, OpenFile p, Tg c, Cleanup d,
                 DelSession ?uid, Tg (EditText complete_text)]
      \<and> length qs = length (filter is_downloading
           (fst (download_result E (data q)
                   (os_path_join d (ustr ''%(id)s.%(ext)s'')) (link ses))))
      \<and> ((\<exists>t u. c = ReplyAudio p t u) \<or> (\<exists>cap. c = ReplyVideo p cap))"
    if last: "last evs = Tg (EditText complete_text)"
  proof (cases "transport E (trace s) (EditText downloading_text)")
    case (Some e)
    then have "?R = (Inl e, ?s1)" by (simp add: fs bindM_def tg_def)
    with evs(1) have "evs = [Tg (EditText downloading_text)]" by simp
    with last show ?thesis by (simp add: downloading_text_neq)
  next
    case None
    then have t1: "tg E (EditText downloading_text) s = (Inr (), ?s1)"
      by (simp add: tg_def)
    obtain rb s2 where b: "?B ?s1 = (rb, s2)" by (cases "?B ?s1")
    show ?thesis
    proof (cases rb)
      case (Inl e)
      then have R: "?R = ?H e s2" by (simp add: fs bindM_def [of "tg E _"] try_except_def t1 b)
      obtain r s' where h: "?H e s2 = (r, s')" by (cases "?H e s2")
      from emitsD [OF emits_download_try, of E ?uid "data q" ?s1] b obtain evsB where
        evsB: "trace s2 = trace ?s1 @ evsB"
        by (metis snd_conv)
      from handler_result [OF h] R h evs(1) evsB
      have "evs = Tg (EditText downloading_text) # evsB
              @ [LogError (ustr ''Download error: '' @ exn_str e),
                 Tg (EditText (download_failed_text e))]"
        by simp
      then have "last evs = Tg (EditText (download_failed_text e))" by simp
      with last show ?thesis by (simp add: downloading_text_neq)
    next
      case (Inr x)
      then have R: "?R = (Inr x, s2)" by (simp add: fs bindM_def [of "tg E _"] try_except_def t1 b)
      from b Inr obtain u sa v sb where
        w: "?W ?s1 = (Inr u, sa)" and d: "del_session ?uid sa = (Inr v, sb)"
        and t: "tg E (EditText complete_text) sb = (Inr x, s2)"
        by (auto elim!: bindM_Inr)
      from w obtain dir s0 where
        m: "mkdtemp E (trace ?s1) = Inr dir" and
        blk: "download_block E ?uid (data q) dir
               (?s1\<lparr>trace := trace ?s1 @ [TmpDir dir], tmpdirs := dir # tmpdirs ?s1\<rparr>)
              = (Inr u, s0)" and
        sa: "trace sa = trace s0 @ [Cleanup dir]"
        by (rule with_tmpdir_Inr)
      from download_block_Inr [OF blk] assms obtain qs p c where
        qs: "length qs = length (filter is_downloading
               (fst (download_result E (data q)
                       (os_path_join dir (ustr ''%(id)s.%(ext)s'')) (link ses))))" and
        c: "(\<exists>t u. c = ReplyAudio p t u) \<or> (\<exists>cap. c = ReplyVideo p cap)" and
        s0: "trace s0 = trace s @ [Tg (EditText downloading_text), TmpDir dir]
               @ [Download (data q) (os_path_join dir (ustr ''%(id)s.%(ext)s'')) (link ses)]
               @ map (\<lambda>r. Tg (EditProgress r)) qs @ [PrepareFilename, OpenFile p, Tg c]"
        by auto
      from d have sb: "trace sb = trace sa @ [DelSession ?uid]"
        by (auto simp: del_session_def split: option.splits)
      from tg_Inr [OF t] have "trace s2 = trace sb @ [Tg (EditText complete_text)]" by simp
      with sb sa s0 R evs(1) have
        "evs = [Tg (EditText downloading_text), TmpDir dir,
               Download (data q) (os_path_join dir (ustr ''%(id)s.%(ext)s'')) (link ses)]
              @ map (\<lambda>r. Tg (EditProgress r)) qs
              @ [PrepareFilename, OpenFile p, Tg c, Cleanup dir,
                 DelSession ?uid, Tg (EditText complete_text)]"
        by simp
      with qs c show ?thesis by blast
    qed
  qed
  from evs complete show ?thesis by blast
qed

text \<open>
  The run in which no external call raises.
\<close>

lemma run_hooks_nominal:
  assumes "\<And>tr x. transport E tr (EditProgress x) = None"
  shows "list_all report_ok rs \<Longrightarrow>
     run_hooks E rs s =
       (Inr (), s\<lparr>trace := trace s @ map (\<lambda>x. Tg (EditProgress x)) (report_quotients rs)\<rparr>)"
proof (induction rs arbitrary: s)
  case Nil
  then show ?case by (simp add: returnM_def)
next
  case (Cons r rs)
  from Cons.prems have ok: "report_ok r" and rest: "list_all report_ok rs" by simp_all
  from ok obtain st where st: "status r = Some st"
    by (auto simp: report_ok_def split: option.splits)
  show ?case
  proof (cases "st = ustr ''downloading''")
    case False
    with st have "progress_hook E r s = (Inr (), s)"
      by (simp add: progress_hook_def subscript_def bindM_def returnM_def)
    with False st Cons.IH [OF rest, of s] show ?thesis
      by (simp add: bindM_def is_downloading_def)
  next
    case True
    with ok st obtain x where x: "py_truediv (dict_get_default (downloaded_bytes r) (NumInt 0))
        (dict_get_default (total_bytes r) (NumInt 1)) = Inr x"
      by (auto simp: report_ok_def split: sum.splits)
    with True st assms have "progress_hook E r s =
        (Inr (), s\<lparr>trace := trace s @ [Tg (EditProgress x)]\<rparr>)"
      by (simp add: progress_hook_def subscript_def bindM_def returnM_def lift_result_def tg_def)
    with True st x Cons.IH [OF rest, of "s\<lparr>trace := trace s @ [Tg (EditProgress x)]\<rparr>"]
    show ?thesis by (simp add: bindM_def is_downloading_def)
  qed
qed

lemma format_selected_nominal:
  assumes ses: "user_context s (from_user_id q) = Some ses"
    and edit: "transport E (trace s) (EditText downloading_text) = None"
    and dir: "mkdtemp E (trace s @ [Tg (EditText downloading_text)]) = Inr d"
    and dl: "download_result E (data q) (os_path_join d (ustr ''%(id)s.%(ext)s'')) (link ses)
             = (reports, Inr meta)"
    and reports: "list_all report_ok reports"
    and progress: "\<And>tr x. transport E tr (EditProgress x) = None"
    and name: "prepare_filename E (os_path_join d (ustr ''%(id)s.%(ext)s'')) meta = Inr p"
    and opened: "open_rb E p = None"
    and title: "title meta = Some t"
    and uploader: "endswith_any p audio_exts \<Longrightarrow> uploader meta = Some u"
    and sent: "\<And>tr. transport E tr
                 (if endswith_any p audio_exts then ReplyAudio p t u
                  else ReplyVideo p ([0x2705, 32] @ py_str t)) = None"
    and final: "\<And>tr. transport E tr (EditText complete_text) = None"
  shows "format_selected E q s =
     (Inr (), s\<lparr>user_context := (user_context s)(from_user_id q := None),
               trace := trace s
                 @ [Tg (EditText downloading_text), TmpDir d,
                    Download (data q) (os_path_join d (ustr ''%(id)s.%(ext)s'')) (link ses)]
                 @ map (\<lambda>x. Tg (EditProgress x)) (report_quotients reports)
                 @ [PrepareFilename, OpenFile p,
                    Tg (if endswith_any p audio_exts then ReplyAudio p t u
                        else ReplyVideo p ([0x2705, 32] @ py_str t)),
                    Cleanup d, DelSession (from_user_id q), Tg (EditText complete_text)]\<rparr>)"
proof -
  let ?o = "os_path_join d (ustr ''%(id)s.%(ext)s'')"
  let ?c = "if endswith_any p audio_exts then ReplyAudio p t u
            else ReplyVideo p ([0x2705, 32] @ py_str t)"
  have send: "send_file E p meta s' = (Inr (), s'\<lparr>trace := trace s' @ [OpenFile p, Tg ?c]\<rparr>)"
    for s'
    using opened title uploader sent
    by (cases "endswith_any p audio_exts")
       (simp_all add: send_file_def bindM_def open_file_ok subscript_def returnM_def tg_def)
  have block: "download_block E (from_user_id q) (data q) d s' =
      (Inr (), s'\<lparr>trace := trace s' @ [Download (data q) ?o (link ses)]
                   @ map (\<lambda>x. Tg (EditProgress x)) (report_quotients reports)
                   @ [PrepareFilename, OpenFile p, Tg ?c]\<rparr>)"
    if "user_context s' (from_user_id q) = Some ses" for s'
    using that dl name
    by (simp add: download_block_def Let_def get_session_def ydl_download_def
          ydl_prepare_filename_def bindM_def emit_def lift_result_def
          run_hooks_nominal [OF progress reports] send)
  show ?thesis
    using ses edit dir final
    by (simp add: format_selected_session [OF ses] bindM_def try_except_def tg_def
          with_tmpdir_def block del_session_def)
qed

text \<open>
  The shapes of a run: the in-progress edit raises, a step of the block raises, the
  run completes, or the completion edit raises.
\<close>

lemma with_tmpdir_released:
  assumes body: "\<And>d. emits 2 6 (body d)"
    and tr: "trace (snd (with_tmpdir E body s)) = trace s @ evs"
    and d: "TmpDir d \<in> set evs"
  shows "Cleanup d \<in> set evs"
proof (cases "mkdtemp E (trace s)")
  case (Inl e)
  with tr d show ?thesis by (simp add: with_tmpdir_def)
next
  case (Inr d0)
  let ?s0 = "s\<lparr>trace := trace s @ [TmpDir d0], tmpdirs := d0 # tmpdirs s\<rparr>"
  from emitsD [OF body, of d0 ?s0] obtain evs0 where
    0: "trace (snd (body d0 ?s0)) = trace ?s0 @ evs0"
       "\<And>ev. ev \<in> set evs0 \<Longrightarrow> 2 \<le> phase ev \<and> phase ev \<le> 6"
    by metis
  from 0(1) Inr have "trace (snd (with_tmpdir E body s)) =
      trace s @ TmpDir d0 # evs0 @ [Cleanup d0]"
    by (auto simp: with_tmpdir_def split: prod.splits)
  with tr have evs: "evs = TmpDir d0 # evs0 @ [Cleanup d0]" by simp
  have "TmpDir d \<notin> set evs0" using 0(2) [of "TmpDir d"] by auto
  with d evs show ?thesis by auto
qed

lemma format_selected_runs:
  assumes "user_context s (from_user_id q) = Some ses"
  obtains
    (edit_raised)
      "trace (snd (format_selected E q s)) = trace s @ [Tg (EditText downloading_text)]"
      "user_context (snd (format_selected E q s)) = user_context s"
  | (failed) evsW e where
      "\<And>ev. ev \<in> set evsW \<Longrightarrow> 1 \<le> phase ev \<and> phase ev \<le> 7"
      "\<And>d. TmpDir d \<in> set evsW \<Longrightarrow> Cleanup d \<in> set evsW"
      "trace (snd (format_selected E q s)) =
         trace s @ Tg (EditText downloading_text) # evsW
           @ [LogError (ustr ''Download error: '' @ exn_str e),
              Tg (EditText (download_failed_text e))]"
      "user_context (snd (format_selected E q s)) = user_context s"
  | (completed) evsW where
      "\<And>ev. ev \<in> set evsW \<Longrightarrow> 1 \<le> phase ev \<and> phase ev \<le> 7"
      "\<And>d. TmpDir d \<in> set evsW \<Longrightarrow> Cleanup d \<in> set evsW"
      "trace (snd (format_selected E q s)) =
         trace s @ Tg (EditText downloading_text) # evsW
           @ [DelSession (from_user_id q), Tg (EditText complete_text)]"
      "user_context (snd (format_selected E q s)) = (user_context s)(from_user_id q := None)"
  | (completion_raised) evsW e where
      "\<And>ev. ev \<in> set evsW \<Longrightarrow> 1 \<le> phase ev \<and> phase ev \<le> 7"
      "\<And>d. TmpDir d \<in> set evsW \<Longrightarrow> Cleanup d \<in> set evsW"
      "trace (snd (format_selected E q s)) =
         trace s @ Tg (EditText downloading_text) # evsW
           @ [DelSession (from_user_id q), Tg (EditText complete_text),
              LogError (ustr ''Download error: '' @ exn_str e),
              Tg (EditText (download_failed_text e))]"
      "user_context (snd (format_selected E q s)) = (user_context s)(from_user_id q := None)"
proof -
  let ?uid = "from_user_id q"
  let ?W = "with_tmpdir E (download_block E ?uid (data q))"
  let ?H = "\<lambda>e. bindM (emit (LogError (ustr ''Download error: '' @ exn_str e))) (\<lambda>_.
               tg E (EditText (download_failed_text e)))"
  let ?B = "bindM ?W (\<lambda>_. bindM (del_session ?uid) (\<lambda>_. tg E (EditText complete_text)))"
  let ?R = "format_selected E q s"
  let ?s1 = "s\<lparr>trace := trace s @ [Tg (EditText downloading_text)]\<rparr>"
  have fs: "?R = bindM (tg E (EditText downloading_text)) (\<lambda>_. try_except ?B ?H) s"
    by (rule format_selected_session [OF assms])
  have H: "trace (snd (?H e t)) = trace t @ [LogError (ustr ''Download error: '' @ exn_str e),
             Tg (EditText (download_failed_text e))]
         \<and> user_context (snd (?H e t)) = user_context t" for e t
  proof -
    obtain r s' where h: "?H e t = (r, s')" by (cases "?H e t")
    from handler_result [OF h] show ?thesis by (simp add: h)
  qed
  show ?thesis
  proof (cases "transport E (trace s) (EditText downloading_text)")
    case (Some e)
    then have "?R = (Inl e, ?s1)" by (simp add: fs bindM_def tg_def)
    then show ?thesis by (intro edit_raised) simp_all
  next
    case None
    then have t1: "tg E (EditText downloading_text) s = (Inr (), ?s1)"
      by (simp add: tg_def)
    obtain rw s2 where w: "?W ?s1 = (rw, s2)" by (cases "?W ?s1")
    have eW: "emits 1 7 ?W"
      by (rule emits_with_tmpdir [OF emits_download_block])
    from emitsD [OF eW, of ?s1] obtain evsW where
      "trace (snd (?W ?s1)) = trace ?s1 @ evsW"
      and bounds: "\<And>ev. ev \<in> set evsW \<Longrightarrow> 1 \<le> phase ev \<and> phase ev \<le> 7"
      by metis
    with w have evsW: "trace s2 = trace ?s1 @ evsW" by simp
    have rel: "Cleanup d \<in> set evsW" if "TmpDir d \<in> set evsW" for d
      using with_tmpdir_released [where body = "download_block E ?uid (data q)" and E = E
          and s = ?s1 and evs = evsW and d = d, OF emits_download_block] w evsW that
      by simp
    have "keeps_context ?W"
      by (intro keeps_context_with_tmpdir keeps_context_download_block)
    then have "user_context (snd (?W ?s1)) = user_context ?s1"
      by (simp add: keeps_context_def)
    with w have c2: "user_context s2 = user_context s" by simp
    show ?thesis
    proof (cases rw)
      case (Inl e)
      then have "?R = ?H e s2" by (simp add: fs bindM_def try_except_def t1 w)
      with H [of e s2] evsW c2 have
        "trace (snd ?R) = trace s @ Tg (EditText downloading_text) # evsW
           @ [LogError (ustr ''Download error: '' @ exn_str e),
              Tg (EditText (download_failed_text e))]"
        "user_context (snd ?R) = user_context s"
        by simp_all
      with bounds rel show ?thesis by (rule failed)
    next
      case rw: (Inr v)
      let ?s3 = "s2\<lparr>user_context := (user_context s2)(?uid := None),
                    trace := trace s2 @ [DelSession ?uid]\<rparr>"
      have d: "del_session ?uid s2 = (Inr (), ?s3)"
        using assms c2 by (simp add: del_session_def)
      obtain r4 s4 where t4: "tg E (EditText complete_text) ?s3 = (r4, s4)"
        by (cases "tg E (EditText complete_text) ?s3")
      then have s4: "trace s4 = trace s @ Tg (EditText downloading_text) # evsW
            @ [DelSession ?uid, Tg (EditText complete_text)]"
          "user_context s4 = (user_context s)(?uid := None)"
        using evsW c2 by (auto simp: tg_def split: option.splits)
      show ?thesis
      proof (cases r4)
        case (Inl e)
        then have "?R = ?H e s4"
          by (simp add: fs bindM_def try_except_def t1 w rw d t4)
        with H [of e s4] s4 have
          "trace (snd ?R) = trace s @ Tg (EditText downloading_text) # evsW
             @ [DelSession ?uid, Tg (EditText complete_text),
                LogError (ustr ''Download error: '' @ exn_str e),
                Tg (EditText (download_failed_text e))]"
          "user_context (snd ?R) = (user_context s)(?uid := None)"
          by simp_all
        with bounds rel show ?thesis by (rule completion_raised)
      next
        case (Inr x)
        then have "?R = (Inr x, s4)"
          by (simp add: fs bindM_def try_except_def t1 w rw d t4)
        with s4 have
          "trace (snd ?R) = trace s @ Tg (EditText downloading_text) # evsW
             @ [DelSession ?uid, Tg (EditText complete_text)]"
          "user_context (snd ?R) = (user_context s)(?uid := None)"
          by simp_all
        with bounds rel show ?thesis by (rule completed)
      qed
    qed
  qed
qed

lemma release_after:
  assumes "sorted (map phase evs)" "evs = pre @ TmpDir d # rest" "Cleanup d \<in> set evs"
  shows "Cleanup d \<in> set rest"
proof (rule ccontr)
  assume "Cleanup d \<notin> set rest"
  with assms(2,3) have "Cleanup d \<in> set pre" by auto
  with assms(1,2) have "phase (Cleanup d) \<le> phase (TmpDir d)"
    by (auto simp: sorted_append)
  then show False by simp
qed

lemma scenario_run_broken:
  "format_selected broken_env scenario_query scenario_state =
     (Inr (), \<lparr>user_context = [7 \<mapsto> scenario_session],
       trace = [Tg (EditText downloading_text), TmpDir (ustr ''/tmp/dl''),
                Download (ustr ''22'') (ustr ''/tmp/dl/%(id)s.%(ext)s'') (ustr ''https://youtu.be/abc''),
                Tg (EditProgress (1 / 2)), Cleanup (ustr ''/tmp/dl''),
                LogError (ustr ''Download error: HTTP Error 403''),
                Tg (EditText (download_failed_text (ExternalError (ustr ''HTTP Error 403''))))],
       tmpdirs = []\<rparr>)"
  by (simp add: flow_defs broken_env_def ok_env_def scenario_query_def scenario_state_def
        scenario_session_def path_defs progress_half_def scenario_info_def)

text \<open>
  C7. For a user with a session.
  On every run of the handler, whatever raises: the temporary directories that exist
  afterwards are those that existed before, and a directory created during the run is
  released later in the same run; the events are appended in the order of the steps
  (in-progress edit, temporary directory, download, progress edits, file name, opening
  and sending the file, release of the directory, deletion of the session, completion
  edit, and on the failure path the log entry and the failure message); the session is
  deleted from \<open>user_context\<close> exactly on the runs that reach the completion edit, so
  after the dispatch and before that edit, and \<open>user_context\<close> is untouched on the
  others; a run ends with the completion edit, having made every step once and in this
  order, or with the in-progress edit that raised, or with the log entry and the
  failure message.
  When no external call raises (the edits are delivered, the directory is created, the
  download returns metadata and its reports can be shown, the file name is prepared, the
  file opens, the title and for audio the uploader are present), the handler returns
  normally and the state afterwards is the state before with the session deleted and
  exactly these events appended: in-progress edit, directory, download into that
  directory, one progress edit for each report whose status is \<open>'downloading'\<close>, file
  name, open, audio or video send, release, deletion, completion edit.
\<close>

theorem format_selected_order:
  assumes "user_context s (from_user_id q) = Some ses"
  shows "tmpdirs (snd (format_selected E q s)) = tmpdirs s
       \<and> (\<exists>evs. trace (snd (format_selected E q s)) = trace s @ evs
            \<and> sorted (map phase evs)
            \<and> (\<forall>d pre rest. evs = pre @ TmpDir d # rest \<longrightarrow> Cleanup d \<in> set rest)
            \<and> (DelSession (from_user_id q) \<in> set evs
                 \<longleftrightarrow> Tg (EditText complete_text) \<in> set evs)
            \<and> user_context (snd (format_selected E q s)) =
                (if Tg (EditText complete_text) \<in> set evs
                 then (user_context s)(from_user_id q := None) else user_context s)
            \<and> (last evs = Tg (EditText complete_text) \<longrightarrow>
                (\<exists>d qs p c.
                   evs = [Tg (EditText downloading_text), TmpDir d,
                          Download (data q) (os_path_join d (ustr ''%(id)s.%(ext)s'')) (link ses)]
                         @ map (\<lambda>r. Tg (EditProgress r)) qs
                         @ [PrepareFilename, OpenFile p, Tg c, Cleanup d,
                            DelSession (from_user_id q), Tg (EditText complete_text)]
                 \<and> length qs = length (filter is_downloading
                      (fst (download_result E (data q)
                              (os_path_join d (ustr ''%(id)s.%(ext)s'')) (link ses))))
                 \<and> ((\<exists>t u. c = ReplyAudio p t u) \<or> (\<exists>cap. c = ReplyVideo p cap))))
            \<and> (last evs \<noteq> Tg (EditText complete_text) \<longrightarrow>
                  evs = [Tg (EditText downloading_text)]
                \<or> (\<exists>pre e. evs = pre @ [LogError (ustr ''Download error: '' @ exn_str e),
                                          Tg (EditText (download_failed_text e))])))
       \<and> (transport E (trace s) (EditText downloading_text) = None
          \<and> mkdtemp E (trace s @ [Tg (EditText downloading_text)]) = Inr d
          \<and> download_result E (data q) (os_path_join d (ustr ''%(id)s.%(ext)s'')) (link ses)
              = (reports, Inr meta)
          \<and> list_all report_ok reports
          \<and> (\<forall>tr x. transport E tr (EditProgress x) = None)
          \<and> prepare_filename E (os_path_join d (ustr ''%(id)s.%(ext)s'')) meta = Inr p
          \<and> open_rb E p = None
          \<and> title meta = Some t
          \<and> (endswith_any p audio_exts \<longrightarrow> uploader meta = Some u)
          \<and> (\<forall>tr. transport E tr
                 (if endswith_any p audio_exts then ReplyAudio p t u
                  else ReplyVideo p ([0x2705, 32] @ py_str t)) = None)
          \<and> (\<forall>tr. transport E tr (EditText complete_text) = None)
          \<longrightarrow>
          format_selected E q s =
            (Inr (), s\<lparr>user_context := (user_context s)(from_user_id q := None),
               trace := trace s
                 @ [Tg (EditText downloading_text), TmpDir d,
                    Download (data q) (os_path_join d (ustr ''%(id)s.%(ext)s'')) (link ses)]
                 @ map (\<lambda>x. Tg (EditProgress x)) (report_quotients reports)
                 @ [PrepareFilename, OpenFile p,
                    Tg (if endswith_any p audio_exts then ReplyAudio p t u
                        else ReplyVideo p ([0x2705, 32] @ py_str t)),
                    Cleanup d, DelSession (from_user_id q), Tg (EditText complete_text)]\<rparr>))"
proof -
  let ?uid = "from_user_id q"
  let ?R = "format_selected E q s"
  let ?dl = "Tg (EditText downloading_text)"
  let ?done = "Tg (EditText complete_text)"
  from format_selected_complete_run [OF assms, of E] obtain evs where
    tmp: "tmpdirs (snd ?R) = tmpdirs s" and
    evs: "trace (snd ?R) = trace s @ evs" and
    srt: "sorted (map phase evs)" and
    full: "last evs = ?done \<longrightarrow>
                (\<exists>d qs p c.
                   evs = [?dl, TmpDir d,
                          Download (data q) (os_path_join d (ustr ''%(id)s.%(ext)s'')) (link ses)]
                         @ map (\<lambda>r. Tg (EditProgress r)) qs
                         @ [PrepareFilename, OpenFile p, Tg c, Cleanup d,
                            DelSession ?uid, ?done]
                 \<and> length qs = length (filter is_downloading
                      (fst (download_result E (data q)
                              (os_path_join d (ustr ''%(id)s.%(ext)s'')) (link ses))))
                 \<and> ((\<exists>t u. c = ReplyAudio p t u) \<or> (\<exists>cap. c = ReplyVideo p cap)))"
    by blast
  have ph: "phase ?done = 9" "phase (DelSession ?uid) = 8"
    by (simp_all add: downloading_text_neq [symmetric])
  have key: "(\<forall>d. TmpDir d \<in> set evs \<longrightarrow> Cleanup d \<in> set evs)
      \<and> (DelSession ?uid \<in> set evs \<longleftrightarrow> ?done \<in> set evs)
      \<and> user_context (snd ?R) =
          (if ?done \<in> set evs then (user_context s)(?uid := None) else user_context s)
      \<and> (last evs \<noteq> ?done \<longrightarrow>
            evs = [?dl]
          \<or> (\<exists>pre e. evs = pre @ [LogError (ustr ''Download error: '' @ exn_str e),
                                    Tg (EditText (download_failed_text e))]))"
  proof (rule format_selected_runs [OF assms, of E])
    assume t: "trace (snd ?R) = trace s @ [?dl]"
      and u: "user_context (snd ?R) = user_context s"
    from t evs have "evs = [?dl]" by simp
    with u show ?thesis by (simp add: downloading_text_neq downloading_text_neq [symmetric])
  next
    fix evsW e
    assume b: "\<And>ev. ev \<in> set evsW \<Longrightarrow> 1 \<le> phase ev \<and> phase ev \<le> 7"
      and r: "\<And>d. TmpDir d \<in> set evsW \<Longrightarrow> Cleanup d \<in> set evsW"
      and t: "trace (snd ?R) = trace s @ ?dl # evsW
           @ [LogError (ustr ''Download error: '' @ exn_str e),
              Tg (EditText (download_failed_text e))]"
      and u: "user_context (snd ?R) = user_context s"
    from t evs have e: "evs = ?dl # evsW
           @ [LogError (ustr ''Download error: '' @ exn_str e),
              Tg (EditText (download_failed_text e))]"
      by simp
    have n: "DelSession ?uid \<notin> set evsW" "?done \<notin> set evsW"
      using b [of "DelSession ?uid"] b [of ?done] ph by auto
    have 1: "\<forall>d. TmpDir d \<in> set evs \<longrightarrow> Cleanup d \<in> set evs"
      using r by (auto simp: e)
    have 2: "DelSession ?uid \<notin> set evs" "?done \<notin> set evs"
      using n by (simp_all add: e downloading_text_neq downloading_text_neq [symmetric])
    have 3: "\<exists>pre e. evs = pre @ [LogError (ustr ''Download error: '' @ exn_str e),
                                    Tg (EditText (download_failed_text e))]"
      unfolding e by (rule exI [of _ "?dl # evsW"], rule exI [of _ e]) simp
    from 1 2 3 u show ?thesis by simp
  next
    fix evsW
    assume b: "\<And>ev. ev \<in> set evsW \<Longrightarrow> 1 \<le> phase ev \<and> phase ev \<le> 7"
      and r: "\<And>d. TmpDir d \<in> set evsW \<Longrightarrow> Cleanup d \<in> set evsW"
      and t: "trace (snd ?R) = trace s @ ?dl # evsW @ [DelSession ?uid, ?done]"
      and u: "user_context (snd ?R) = (user_context s)(?uid := None)"
    from t evs have e: "evs = ?dl # evsW @ [DelSession ?uid, ?done]" by simp
    have 1: "\<forall>d. TmpDir d \<in> set evs \<longrightarrow> Cleanup d \<in> set evs"
      using r by (auto simp: e)
    have 2: "DelSession ?uid \<in> set evs" "?done \<in> set evs" "last evs = ?done"
      by (simp_all add: e)
    from 1 2 u show ?thesis by simp
  next
    fix evsW e
    assume b: "\<And>ev. ev \<in> set evsW \<Longrightarrow> 1 \<le> phase ev \<and> phase ev \<le> 7"
      and r: "\<And>d. TmpDir d \<in> set evsW \<Longrightarrow> Cleanup d \<in> set evsW"
      and t: "trace (snd ?R) = trace s @ ?dl # evsW
           @ [DelSession ?uid, ?done,
              LogError (ustr ''Download error: '' @ exn_str e),
              Tg (EditText (download_failed_text e))]"
      and u: "user_context (snd ?R) = (user_context s)(?uid := None)"
    from t evs have e: "evs = ?dl # evsW
           @ [DelSession ?uid, ?done,
              LogError (ustr ''Download error: '' @ exn_str e),
              Tg (EditText (download_failed_text e))]"
      by simp
    have 1: "\<forall>d. TmpDir d \<in> set evs \<longrightarrow> Cleanup d \<in> set evs"
      using r by (auto simp: e)
    have 2: "DelSession ?uid \<in> set evs" "?done \<in> set evs"
      by (simp_all add: e)
    have 3: "\<exists>pre e. evs = pre @ [LogError (ustr ''Download error: '' @ exn_str e),
                                    Tg (EditText (download_failed_text e))]"
      unfolding e
      by (rule exI [of _ "?dl # evsW @ [DelSession ?uid, ?done]"], rule exI [of _ e]) simp
    from 1 2 3 u show ?thesis by simp
  qed
  have rel: "\<forall>d pre rest. evs = pre @ TmpDir d # rest \<longrightarrow> Cleanup d \<in> set rest"
  proof (intro allI impI)
    fix d pre rest
    assume e: "evs = pre @ TmpDir d # rest"
    then have "TmpDir d \<in> set evs" by simp
    with key have "Cleanup d \<in> set evs" by blast
    with srt e show "Cleanup d \<in> set rest" by (rule release_after)
  qed
  have all_runs: "\<exists>evs. trace (snd ?R) = trace s @ evs
            \<and> sorted (map phase evs)
            \<and> (\<forall>d pre rest. evs = pre @ TmpDir d # rest \<longrightarrow> Cleanup d \<in> set rest)
            \<and> (DelSession ?uid \<in> set evs \<longleftrightarrow> ?done \<in> set evs)
            \<and> user_context (snd ?R) =
                (if ?done \<in> set evs then (user_context s)(?uid := None) else user_context s)
            \<and> (last evs = ?done \<longrightarrow>
                (\<exists>d qs p c.
                   evs = [?dl, TmpDir d,
                          Download (data q) (os_path_join d (ustr ''%(id)s.%(ext)s'')) (link ses)]
                         @ map (\<lambda>r. Tg (EditProgress r)) qs
                         @ [PrepareFilename, OpenFile p, Tg c, Cleanup d,
                            DelSession ?uid, ?done]
                 \<and> length qs = length (filter is_downloading
                      (fst (download_result E (data q)
                              (os_path_join d (ustr ''%(id)s.%(ext)s'')) (link ses))))
                 \<and> ((\<exists>t u. c = ReplyAudio p t u) \<or> (\<exists>cap. c = ReplyVideo p cap))))
            \<and> (last evs \<noteq> ?done \<longrightarrow>
                  evs = [?dl]
                \<or> (\<exists>pre e. evs = pre @ [LogError (ustr ''Download error: '' @ exn_str e),
                                          Tg (EditText (download_failed_text e))]))"
    using evs srt rel key full by (intro exI [of _ evs]) simp
  have nominal: "format_selected E q s =
            (Inr (), s\<lparr>user_context := (user_context s)(?uid := None),
               trace := trace s
                 @ [?dl, TmpDir d,
                    Download (data q) (os_path_join d (ustr ''%(id)s.%(ext)s'')) (link ses)]
                 @ map (\<lambda>x. Tg (EditProgress x)) (report_quotients reports)
                 @ [PrepareFilename, OpenFile p,
                    Tg (if endswith_any p audio_exts then ReplyAudio p t u
                        else ReplyVideo p ([0x2705, 32] @ py_str t)),
                    Cleanup d, DelSession ?uid, ?done]\<rparr>)"
    if "transport E (trace s) (EditText downloading_text) = None"
      "mkdtemp E (trace s @ [?dl]) = Inr d"
      "download_result E (data q) (os_path_join d (ustr ''%(id)s.%(ext)s'')) (link ses)
              = (reports, Inr meta)"
      "list_all report_ok reports"
      "\<forall>tr x. transport E tr (EditProgress x) = None"
      "prepare_filename E (os_path_join d (ustr ''%(id)s.%(ext)s'')) meta = Inr p"
      "open_rb E p = None"
      "title meta = Some t"
      "endswith_any p audio_exts \<longrightarrow> uploader meta = Some u"
      "\<forall>tr. transport E tr
                 (if endswith_any p audio_exts then ReplyAudio p t u
                  else ReplyVideo p ([0x2705, 32] @ py_str t)) = None"
      "\<forall>tr. transport E tr (EditText complete_text) = None"
    using that by (intro format_selected_nominal [OF assms]) simp_all
  from tmp all_runs nominal show ?thesis by blast
qed

theorem format_selected_order_witness:
  "user_context scenario_state (from_user_id scenario_query) = Some scenario_session
   \<and> format_selected ok_env scenario_query scenario_state =
       (Inr (), \<lparr>user_context = Map.empty,
          trace = [Tg (EditText downloading_text), TmpDir (ustr ''/tmp/dl''),
                   Download (ustr ''22'') (ustr ''/tmp/dl/%(id)s.%(ext)s'')
                     (ustr ''https://youtu.be/abc''),
                   Tg (EditProgress (1 / 2)), PrepareFilename,
                   OpenFile (ustr ''/tmp/dl/abc.mp4''),
                   Tg (ReplyVideo (ustr ''/tmp/dl/abc.mp4'') ([0x2705, 32] @ ustr ''Clip'')),
                   Cleanup (ustr ''/tmp/dl''), DelSession 7, Tg (EditText complete_text)],
          tmpdirs = []\<rparr>)
   \<and> trace (snd (format_selected broken_env scenario_query scenario_state)) =
       [Tg (EditText downloading_text), TmpDir (ustr ''/tmp/dl''),
        Download (ustr ''22'') (ustr ''/tmp/dl/%(id)s.%(ext)s'') (ustr ''https://youtu.be/abc''),
        Tg (EditProgress (1 / 2)), Cleanup (ustr ''/tmp/dl''),
        LogError (ustr ''Download error: HTTP Error 403''),
        Tg (EditText (download_failed_text (ExternalError (ustr ''HTTP Error 403''))))]
   \<and> tmpdirs (snd (format_selected broken_env scenario_query scenario_state)) = []
   \<and> user_context (snd (format_selected broken_env scenario_query scenario_state)) 7 =
       Some scenario_session"
proof -
  let ?d = "ustr ''/tmp/dl''"
  let ?p = "ustr ''/tmp/dl/abc.mp4''"
  have s: "user_context scenario_state (from_user_id scenario_query) = Some scenario_session"
    by (simp add: scenario_state_def scenario_query_def)
  have o: "os_path_join ?d (ustr ''%(id)s.%(ext)s'') = ustr ''/tmp/dl/%(id)s.%(ext)s''"
    by (simp add: path_defs)
  have v: "\<not> endswith_any ?p audio_exts"
    by (simp add: path_defs)
  have hyps: "transport ok_env (trace scenario_state) (EditText downloading_text) = None
      \<and> mkdtemp ok_env (trace scenario_state @ [Tg (EditText downloading_text)]) = Inr ?d
      \<and> download_result ok_env (data scenario_query)
           (os_path_join ?d (ustr ''%(id)s.%(ext)s'')) (link scenario_session)
          = ([progress_half, progress_done], Inr scenario_info)
      \<and> list_all report_ok [progress_half, progress_done]
      \<and> (\<forall>tr x. transport ok_env tr (EditProgress x) = None)
      \<and> prepare_filename ok_env (os_path_join ?d (ustr ''%(id)s.%(ext)s'')) scenario_info
          = Inr ?p
      \<and> open_rb ok_env ?p = None
      \<and> title scenario_info = Some (PyStr (ustr ''Clip''))
      \<and> (endswith_any ?p audio_exts \<longrightarrow>
            uploader scenario_info = Some (PyStr (ustr ''Someone'')))
      \<and> (\<forall>tr. transport ok_env tr
             (if endswith_any ?p audio_exts
              then ReplyAudio ?p (PyStr (ustr ''Clip'')) (PyStr (ustr ''Someone''))
              else ReplyVideo ?p ([0x2705, 32] @ py_str (PyStr (ustr ''Clip'')))) = None)
      \<and> (\<forall>tr. transport ok_env tr (EditText complete_text) = None)"
    by (simp add: ok_env_def v report_ok_def progress_half_def progress_done_def
          scenario_info_def dict_get_default_def ustr_def)
  have q: "report_quotients [progress_half, progress_done] = [1 / 2]"
    by (simp add: is_downloading_def progress_half_def progress_done_def dict_get_default_def
          ustr_def)
  from format_selected_order [OF s, where E = ok_env, THEN conjunct2, THEN conjunct2,
      THEN mp, OF hyps]
  have ok: "format_selected ok_env scenario_query scenario_state =
       (Inr (), \<lparr>user_context = Map.empty,
          trace = [Tg (EditText downloading_text), TmpDir ?d,
                   Download (ustr ''22'') (ustr ''/tmp/dl/%(id)s.%(ext)s'')
                     (ustr ''https://youtu.be/abc''),
                   Tg (EditProgress (1 / 2)), PrepareFilename, OpenFile ?p,
                   Tg (ReplyVideo ?p ([0x2705, 32] @ ustr ''Clip'')),
                   Cleanup ?d, DelSession 7, Tg (EditText complete_text)],
          tmpdirs = []\<rparr>)"
    by (simp add: o v q scenario_state_def scenario_query_def scenario_session_def
          del: report_quotients.simps)
  from format_selected_order [OF s, where E = broken_env, THEN conjunct1]
  have tmp: "tmpdirs (snd (format_selected broken_env scenario_query scenario_state)) = []"
    by (simp add: scenario_state_def)
  from s ok tmp show ?thesis
    by (simp add: scenario_run_broken)
qed

text \<open>
  C9. For a report with status \<open>'downloading'\<close> whose byte counts are integers or
  absent, the hook shows \<open>downloaded_bytes / total_bytes\<close>, with 0 for an absent
  \<open>downloaded_bytes\<close> and 1 for an absent \<open>total_bytes\<close>; when \<open>total_bytes\<close> is
  present and 0 the division raises \<open>ZeroDivisionError\<close> and no edit is made.
\<close>

theorem progress_hook_quotient:
  "progress_hook E \<lparr>status = Some (ustr ''downloading''),
                    downloaded_bytes = map_option NumInt a,
                    total_bytes = map_option NumInt b\<rparr> s =
     (if (case b of None \<Rightarrow> 1 | Some y \<Rightarrow> y) = 0 then (Inl ZeroDivisionError, s)
      else tg E (EditProgress (of_int (case a of None \<Rightarrow> 0 | Some x \<Rightarrow> x)
                               / of_int (case b of None \<Rightarrow> 1 | Some y \<Rightarrow> y))) s)
   \<and> progress_hook E \<lparr>status = Some (ustr ''downloading''),
                      downloaded_bytes = map_option NumInt a,
                      total_bytes = Some (NumInt 0)\<rparr> s = (Inl ZeroDivisionError, s)"
  by (cases a; cases b)
     (simp_all add: progress_hook_def subscript_def bindM_def returnM_def raiseM_def
        lift_result_def dict_get_default_def)

text \<open>
  C6. A path ends with one of the four audio suffixes exactly when its extension is
  \<open>.mp3\<close>, \<open>.m4a\<close>, \<open>.opus\<close> or \<open>.webm\<close>. With such an extension the file is
  sent with \<open>reply_audio\<close> (title and performer from the metadata); with any other
  extension it is sent with \<open>reply_video\<close> and the caption made of the check mark and
  the title. On every run, also one that raises, the only call into the transport is the
  send of that kind.
\<close>

theorem send_file_by_extension:
  "(endswith_any p audio_exts \<longleftrightarrow>
      spec_extension p \<in> {ustr ''.mp3'', ustr ''.m4a'', ustr ''.opus'', ustr ''.webm''})
   \<and> (spec_extension p \<in> {ustr ''.mp3'', ustr ''.m4a'', ustr ''.opus'', ustr ''.webm''}
        \<and> open_rb E p = None \<and> title meta = Some t \<and> uploader meta = Some u \<longrightarrow>
        send_file E p meta s =
          tg E (ReplyAudio p t u) (s\<lparr>trace := trace s @ [OpenFile p]\<rparr>))
   \<and> (spec_extension p \<notin> {ustr ''.mp3'', ustr ''.m4a'', ustr ''.opus'', ustr ''.webm''}
        \<and> open_rb E p = None \<and> title meta = Some t \<longrightarrow>
        send_file E p meta s =
          tg E (ReplyVideo p ([0x2705, 32] @ py_str t)) (s\<lparr>trace := trace s @ [OpenFile p]\<rparr>))
   \<and> (\<exists>evs. trace (snd (send_file E p meta s)) = trace s @ evs
         \<and> (\<forall>c. Tg c \<in> set evs \<longrightarrow>
               (if spec_extension p \<in> {ustr ''.mp3'', ustr ''.m4a'', ustr ''.opus'', ustr ''.webm''}
                then \<exists>t u. c = ReplyAudio p t u
                else \<exists>t. c = ReplyVideo p ([0x2705, 32] @ py_str t))))"
proof -
  have ext: "endswith_any p audio_exts \<longleftrightarrow>
      spec_extension p \<in> {ustr ''.mp3'', ustr ''.m4a'', ustr ''.opus'', ustr ''.webm''}"
    using endswith_any_extension [of p] by (simp add: audio_exts_def)
  have audio: "send_file E p meta s =
      tg E (ReplyAudio p t u) (s\<lparr>trace := trace s @ [OpenFile p]\<rparr>)"
    if "endswith_any p audio_exts" "open_rb E p = None" "title meta = Some t"
       "uploader meta = Some u"
    using that by (simp add: send_file_def bindM_def open_file_ok subscript_def returnM_def)
  have video: "send_file E p meta s =
      tg E (ReplyVideo p ([0x2705, 32] @ py_str t)) (s\<lparr>trace := trace s @ [OpenFile p]\<rparr>)"
    if "\<not> endswith_any p audio_exts" "open_rb E p = None" "title meta = Some t"
    using that by (simp add: send_file_def bindM_def open_file_ok subscript_def returnM_def)
  have calls: "\<exists>evs. trace (snd (send_file E p meta s)) = trace s @ evs
         \<and> (\<forall>c. Tg c \<in> set evs \<longrightarrow>
               (if endswith_any p audio_exts then \<exists>t u. c = ReplyAudio p t u
                else \<exists>t. c = ReplyVideo p ([0x2705, 32] @ py_str t)))"
    by (auto simp: send_file_def open_file_def bindM_def emit_def returnM_def raiseM_def
          subscript_def tg_def split: option.splits)
  show ?thesis using ext audio video calls by simp
qed

theorem send_file_by_extension_witness:
  "send_file ok_env (ustr ''/tmp/dl/abc.mp4'') scenario_info initial_state =
     (Inr (), initial_state\<lparr>trace :=
        [OpenFile (ustr ''/tmp/dl/abc.mp4''),
         Tg (ReplyVideo (ustr ''/tmp/dl/abc.mp4'') ([0x2705, 32] @ ustr ''Clip''))]\<rparr>)
   \<and> send_file ok_env (ustr ''/tmp/dl/abc.webm'') scenario_info initial_state =
     (Inr (), initial_state\<lparr>trace :=
        [OpenFile (ustr ''/tmp/dl/abc.webm''),
         Tg (ReplyAudio (ustr ''/tmp/dl/abc.webm'') (PyStr (ustr ''Clip''))
               (PyStr (ustr ''Someone'')))]\<rparr>)"
  using send_file_by_extension [of "ustr ''/tmp/dl/abc.mp4''" ok_env scenario_info
          "PyStr (ustr ''Clip'')" "PyStr (ustr ''Someone'')" initial_state]
        send_file_by_extension [of "ustr ''/tmp/dl/abc.webm''" ok_env scenario_info
          "PyStr (ustr ''Clip'')" "PyStr (ustr ''Someone'')" initial_state]
  by (simp add: spec_extension_def ustr_def scenario_info_def ok_env_def tg_def initial_state_def)

text \<open>
  What the handler appends first on the download path.
\<close>

lemma bindM_extends:
  assumes "\<And>x. emits lo hi (k x)"
  shows "\<exists>evs. trace (snd (bindM m k s)) = trace (snd (m s)) @ evs"
proof (cases "m s")
  case (Pair r s1)
  show ?thesis
  proof (cases r)
    case (Inl e)
    with Pair show ?thesis by (simp add: bindM_def)
  next
    case (Inr x)
    from emitsD [OF assms, of x s1] obtain evs where
      "trace (snd (k x s1)) = trace s1 @ evs" by blast
    with Pair Inr show ?thesis by (simp add: bindM_def)
  qed
qed

lemma try_except_extends:
  assumes "\<And>e. emits lo hi (h e)"
  shows "\<exists>evs. trace (snd (try_except m h s)) = trace (snd (m s)) @ evs"
proof (cases "m s")
  case (Pair r s1)
  show ?thesis
  proof (cases r)
    case (Inr x)
    with Pair show ?thesis by (simp add: try_except_def)
  next
    case (Inl e)
    from emitsD [OF assms, of e s1] obtain evs where
      "trace (snd (h e s1)) = trace s1 @ evs" by blast
    with Pair Inl show ?thesis by (simp add: try_except_def)
  qed
qed

lemma download_block_starts:
  assumes "user_context s uid = Some ses"
  shows "\<exists>evs. trace (snd (download_block E uid fid d s)) =
           trace s @ Download fid (os_path_join d (ustr ''%(id)s.%(ext)s'')) (link ses) # evs"
proof -
  let ?o = "os_path_join d (ustr ''%(id)s.%(ext)s'')"
  let ?rest = "bindM (bindM (run_hooks E (fst (download_result E fid ?o (link ses))))
                        (\<lambda>_. lift_result (snd (download_result E fid ?o (link ses)))))
                 (\<lambda>meta. bindM (ydl_prepare_filename E ?o meta) (\<lambda>p. send_file E p meta))"
  let ?s1 = "s\<lparr>trace := trace s @ [Download fid ?o (link ses)]\<rparr>"
  have eq: "download_block E uid fid d s = ?rest ?s1"
    using assms
    by (simp add: download_block_def Let_def get_session_def ydl_download_def bindM_def emit_def)
  have "emits 3 6 ?rest"
  proof (rule emits_bindM [where mid = 4])
    show "emits 3 4 (bindM (run_hooks E (fst (download_result E fid ?o (link ses))))
                        (\<lambda>_. lift_result (snd (download_result E fid ?o (link ses)))))"
      by (rule emits_bindM [where mid = 3])
         (simp_all add: emits_run_hooks emits_lift_result)
    show "emits 4 6 (bindM (ydl_prepare_filename E ?o meta) (\<lambda>p. send_file E p meta))" for meta
      by (rule emits_bindM [where mid = 5])
         (simp_all add: emits_send_file emits_mono [OF emits_ydl_prepare_filename])
  qed simp_all
  from emitsD [OF this, of ?s1] obtain evs where
    "trace (snd (?rest ?s1)) = trace ?s1 @ evs" by blast
  with eq show ?thesis by simp
qed

lemma format_selected_starts:
  assumes "user_context s (from_user_id q) = Some ses"
  shows "\<exists>evs. trace (snd (format_selected E q s)) =
                 trace s @ Tg (EditText downloading_text) # evs
           \<and> (transport E (trace s) (EditText downloading_text) = None \<longrightarrow>
                (\<forall>d. mkdtemp E (trace s @ [Tg (EditText downloading_text)]) = Inr d \<longrightarrow>
                   (\<exists>evs'. evs = TmpDir d
                      # Download (data q) (os_path_join d (ustr ''%(id)s.%(ext)s'')) (link ses)
                      # evs')))"
proof -
  let ?uid = "from_user_id q"
  let ?W = "with_tmpdir E (download_block E ?uid (data q))"
  let ?H = "\<lambda>e. bindM (emit (LogError (ustr ''Download error: '' @ exn_str e))) (\<lambda>_.
               tg E (EditText (download_failed_text e)))"
  let ?K = "\<lambda>_::unit. bindM (del_session ?uid) (\<lambda>_. tg E (EditText complete_text))"
  let ?B = "bindM ?W ?K"
  let ?s1 = "s\<lparr>trace := trace s @ [Tg (EditText downloading_text)]\<rparr>"
  have fs: "format_selected E q s =
      bindM (tg E (EditText downloading_text)) (\<lambda>_. try_except ?B ?H) s"
    by (rule format_selected_session [OF assms])
  show ?thesis
  proof (cases "transport E (trace s) (EditText downloading_text)")
    case (Some e)
    then have "format_selected E q s = (Inl e, ?s1)" by (simp add: fs bindM_def tg_def)
    with Some show ?thesis by simp
  next
    case None
    then have R: "format_selected E q s = try_except ?B ?H ?s1"
      by (simp add: fs bindM_def [of "tg E _"] tg_def)
    from try_except_extends [of 10 11 ?H ?B ?s1] obtain evsH where
      h: "trace (snd (try_except ?B ?H ?s1)) = trace (snd (?B ?s1)) @ evsH"
      using emits_download_handler by blast
    from bindM_extends [of 8 9 ?K ?W ?s1] obtain evsK where
      k: "trace (snd (?B ?s1)) = trace (snd (?W ?s1)) @ evsK"
      using emits_download_finish by blast
    have "emits 1 7 ?W"
      by (rule emits_with_tmpdir [OF emits_download_block])
    then obtain evsW where w: "trace (snd (?W ?s1)) = trace ?s1 @ evsW"
      by (rule emitsD)
    have start: "\<exists>evs'. evsW = TmpDir d
          # Download (data q) (os_path_join d (ustr ''%(id)s.%(ext)s'')) (link ses) # evs'"
      if m: "mkdtemp E (trace s @ [Tg (EditText downloading_text)]) = Inr d" for d
    proof -
      let ?s2 = "?s1\<lparr>trace := trace ?s1 @ [TmpDir d], tmpdirs := d # tmpdirs ?s1\<rparr>"
      from download_block_starts [where s = ?s2 and uid = ?uid and ses = ses and E = E
          and fid = "data q" and d = d] assms obtain evs where
        "trace (snd (download_block E ?uid (data q) d ?s2)) =
           trace ?s2 @ Download (data q) (os_path_join d (ustr ''%(id)s.%(ext)s'')) (link ses) # evs"
        by auto
      with m have "trace (snd (?W ?s1)) = trace ?s1 @ TmpDir d
          # Download (data q) (os_path_join d (ustr ''%(id)s.%(ext)s'')) (link ses)
          # evs @ [Cleanup d]"
        by (auto simp: with_tmpdir_def split: prod.splits)
      with w show ?thesis by auto
    qed
    from R h k w have "trace (snd (format_selected E q s)) =
        trace s @ Tg (EditText downloading_text) # (evsW @ evsK @ evsH)"
      by simp
    with start show ?thesis by fastforce
  qed
qed

lemma start_run:
  "format_selected ok_env start_query scenario_state =
     (Inr (), \<lparr>user_context = Map.empty,
       trace = [Tg (EditText downloading_text), TmpDir (ustr ''/tmp/dl''),
                Download (ustr ''start'') (ustr ''/tmp/dl/%(id)s.%(ext)s'') (ustr ''https://youtu.be/abc''),
                Tg (EditProgress (1 / 2)), PrepareFilename, OpenFile (ustr ''/tmp/dl/abc.mp4''),
                Tg (ReplyVideo (ustr ''/tmp/dl/abc.mp4'') ([0x2705, 32] @ ustr ''Clip'')),
                Cleanup (ustr ''/tmp/dl''), DelSession 7, Tg (EditText complete_text)],
       tmpdirs = []\<rparr>)"
  by (simp add: flow_defs ok_env_def start_query_def scenario_state_def scenario_session_def
        path_defs progress_half_def progress_done_def scenario_info_def)

text \<open>
  C8. The button of the welcome message carries the callback data \<open>'start'\<close>, and
  every callback query is handled by \<open>format_selected\<close>. A press of that button by a
  user with no session gives the warning and nothing else. A press by a user with a
  session takes the download path: the in-progress edit is made and, once that edit is
  delivered and the temporary directory exists, the download is called with the format
  identifier \<open>'start'\<close> on the link of the session.
\<close>

theorem get_started_button:
  "start E m s =
     tg E (ReplyText welcome_text True
             (Some [[([0x1F680] @ ustr '' Get Started'', PyStr (ustr ''start''))]])) s
   \<and> route E (CallbackQuery q) = format_selected E q
   \<and> (data q = ustr ''start'' \<and> user_context s (from_user_id q) = None \<longrightarrow>
        snd (route E (CallbackQuery q) s) =
          s\<lparr>trace := trace s @ [Tg (Answer no_session_text)]\<rparr>)
   \<and> (data q = ustr ''start'' \<and> user_context s (from_user_id q) = Some ses \<longrightarrow>
        (\<exists>evs. trace (snd (route E (CallbackQuery q) s)) =
                  trace s @ Tg (EditText downloading_text) # evs
           \<and> (transport E (trace s) (EditText downloading_text) = None \<longrightarrow>
                (\<forall>d. mkdtemp E (trace s @ [Tg (EditText downloading_text)]) = Inr d \<longrightarrow>
                   (\<exists>evs'. evs = TmpDir d
                      # Download (ustr ''start'') (os_path_join d (ustr ''%(id)s.%(ext)s''))
                          (link ses)
                      # evs')))))"
proof -
  have 1: "start E m s =
     tg E (ReplyText welcome_text True
             (Some [[([0x1F680] @ ustr '' Get Started'', PyStr (ustr ''start''))]])) s"
    by (simp add: start_def start_keyboard_def)
  have 2: "route E (CallbackQuery q) = format_selected E q"
    by (simp add: route_def)
  have 3: "snd (format_selected E q s) = s\<lparr>trace := trace s @ [Tg (Answer no_session_text)]\<rparr>"
    if "user_context s (from_user_id q) = None"
    using that by (simp add: format_selected_def Let_def dom_def tg_def split: option.splits)
  have 4: "\<exists>evs. trace (snd (format_selected E q s)) =
                  trace s @ Tg (EditText downloading_text) # evs
           \<and> (transport E (trace s) (EditText downloading_text) = None \<longrightarrow>
                (\<forall>d. mkdtemp E (trace s @ [Tg (EditText downloading_text)]) = Inr d \<longrightarrow>
                   (\<exists>evs'. evs = TmpDir d
                      # Download (ustr ''start'') (os_path_join d (ustr ''%(id)s.%(ext)s''))
                          (link ses)
                      # evs')))"
    if "data q = ustr ''start''" "user_context s (from_user_id q) = Some ses"
    using format_selected_starts [OF that(2), of E] that(1) by simp
  show ?thesis using 1 2 3 4 by simp
qed

theorem get_started_button_witness:
  "data start_query = ustr ''start''
   \<and> user_context initial_state (from_user_id start_query) = None
   \<and> snd (route ok_env (CallbackQuery start_query) initial_state) =
       initial_state\<lparr>trace := [Tg (Answer no_session_text)]\<rparr>
   \<and> user_context scenario_state (from_user_id start_query) = Some scenario_session
   \<and> trace (snd (route ok_env (CallbackQuery start_query) scenario_state)) =
       [Tg (EditText downloading_text), TmpDir (ustr ''/tmp/dl''),
        Download (ustr ''start'') (ustr ''/tmp/dl/%(id)s.%(ext)s'') (ustr ''https://youtu.be/abc''),
        Tg (EditProgress (1 / 2)), PrepareFilename, OpenFile (ustr ''/tmp/dl/abc.mp4''),
        Tg (ReplyVideo (ustr ''/tmp/dl/abc.mp4'') ([0x2705, 32] @ ustr ''Clip'')),
        Cleanup (ustr ''/tmp/dl''), DelSession 7, Tg (EditText complete_text)]"
  using get_started_button [of ok_env scenario_message initial_state start_query scenario_session]
    get_started_button [of ok_env scenario_message scenario_state start_query scenario_session]
  by (simp add: start_run) (simp add: start_query_def initial_state_def scenario_state_def)

section \<open>The link handler\<close>

lemmas link_defs = handle_youtube_link_def ydl_probe_def bindM_def try_except_def
  returnM_def raiseM_def emit_def lift_result_def tg_def subscript_def put_session_def

lemma scenario_strip: "strip (ustr ''  https://youtu.be/abc '') = ustr ''https://youtu.be/abc''"
  by (simp add: strip_def ustr_def is_space_def)

lemma scenario_valid: "is_youtube_link (ustr ''https://youtu.be/abc'')"
  by (simp add: is_youtube_link_def ustr_def sublist_code(3))

lemma scenario_title: "title scenario_info = Some (PyStr (ustr ''Clip''))"
  by (simp add: scenario_info_def)

lemma scenario_link:
  "strip (message_text scenario_message) = ustr ''https://youtu.be/abc''"
  by (simp add: scenario_message_def scenario_strip)

lemma scenario_sublist: "sublist (ustr ''youtu.be'') (ustr ''https://youtu.be/abc'')"
  by (simp add: ustr_def sublist_code(3))

lemma plain_invalid:
  "\<not> sublist (ustr ''youtube.com'') (strip (message_text plain_message))"
  "\<not> sublist (ustr ''youtu.be'') (strip (message_text plain_message))"
  by (simp_all add: plain_message_def strip_def is_space_def ustr_def sublist_code(3))

lemma second_strip:
  "strip (ustr ''https://www.youtube.com/watch?v=xyz'') = ustr ''https://www.youtube.com/watch?v=xyz''"
  by (simp add: strip_def is_space_def ustr_def)

lemma second_valid: "is_youtube_link (ustr ''https://www.youtube.com/watch?v=xyz'')"
  by (simp add: is_youtube_link_def ustr_def sublist_code(3))

lemma probe_failed_text_length: "length (probe_failed_text e) \<le> 125"
  by (simp add: probe_failed_text_def ustr_def)

lemma link_run_ok:
  "handle_youtube_link ok_env scenario_message initial_state =
     (Inr (), \<lparr>user_context = [7 \<mapsto> \<lparr>link = ustr ''https://youtu.be/abc'', info = scenario_info\<rparr>],
       trace = [Tg (ReplyText analyzing_text False None), Probe (ustr ''https://youtu.be/abc''),
                PutSession 7,
                Tg (ReplyText (menu_text (PyStr (ustr ''Clip''))) True
                      (Some (menu_keyboard scenario_info)))],
       tmpdirs = []\<rparr>)"
  by (simp add: link_defs Let_def scenario_message_def scenario_strip scenario_valid
        ok_env_def initial_state_def scenario_title)

lemma untitled_run:
  "handle_youtube_link untitled_env scenario_message initial_state =
     (Inr (), \<lparr>user_context = [7 \<mapsto> \<lparr>link = ustr ''https://youtu.be/abc'', info = untitled_info\<rparr>],
       trace = [Tg (ReplyText analyzing_text False None), Probe (ustr ''https://youtu.be/abc''),
                PutSession 7,
                LogError (ustr ''Format error: '' @ exn_str (KeyError (ustr ''title''))),
                Tg (ReplyText (probe_failed_text (KeyError (ustr ''title''))) False None)],
       tmpdirs = []\<rparr>)"
  by (simp add: link_defs Let_def scenario_message_def scenario_strip scenario_valid
        untitled_env_def ok_env_def untitled_info_def initial_state_def)

lemma refusing_run:
  "handle_youtube_link refusing_env scenario_message initial_state =
     (Inr (), \<lparr>user_context = [7 \<mapsto> \<lparr>link = ustr ''https://youtu.be/abc'', info = scenario_info\<rparr>],
       trace = [Tg (ReplyText analyzing_text False None), Probe (ustr ''https://youtu.be/abc''),
                PutSession 7,
                Tg (ReplyText (menu_text (PyStr (ustr ''Clip''))) True
                      (Some (menu_keyboard scenario_info))),
                LogError (ustr ''Format error: '' @ ustr ''Button_data_invalid''),
                Tg (ReplyText (probe_failed_text (ExternalError (ustr ''Button_data_invalid'')))
                      False None)],
       tmpdirs = []\<rparr>)"
  by (simp add: link_defs Let_def scenario_message_def scenario_strip scenario_valid
        refusing_env_def ok_env_def initial_state_def scenario_title)

text \<open>
  C4. When the stripped text contains neither \<open>youtube.com\<close> nor \<open>youtu.be\<close>, the
  handler makes one call, the reply with the warning, and the state is otherwise
  unchanged: the probe is not called and no session is written. When the stripped text
  contains one of them, the handler goes on to the probe: it sends the analysing notice
  and, as soon as that call returns, calls the probe on the stripped text.
\<close>

theorem handle_youtube_link_validation:
  "(\<not> sublist (ustr ''youtube.com'') (strip (message_text m))
      \<and> \<not> sublist (ustr ''youtu.be'') (strip (message_text m)) \<longrightarrow>
      snd (handle_youtube_link E m s) =
        s\<lparr>trace := trace s @ [Tg (ReplyText invalid_link_text False None)]\<rparr>)
   \<and> (sublist (ustr ''youtube.com'') (strip (message_text m))
      \<or> sublist (ustr ''youtu.be'') (strip (message_text m)) \<longrightarrow>
      (\<exists>evs. trace (snd (handle_youtube_link E m s)) =
                trace s @ Tg (ReplyText analyzing_text False None) # evs
         \<and> (transport E (trace s) (ReplyText analyzing_text False None) = None \<longrightarrow>
              (\<exists>evs'. evs = Probe (strip (message_text m)) # evs'))))"
  by (auto simp: link_defs is_youtube_link_def Let_def
           split: option.splits sum.splits prod.splits)

theorem handle_youtube_link_validation_witness:
  "\<not> sublist (ustr ''youtube.com'') (strip (message_text plain_message))
   \<and> \<not> sublist (ustr ''youtu.be'') (strip (message_text plain_message))
   \<and> snd (handle_youtube_link ok_env plain_message initial_state) =
       initial_state\<lparr>trace := [Tg (ReplyText invalid_link_text False None)]\<rparr>
   \<and> sublist (ustr ''youtu.be'') (strip (message_text scenario_message))
   \<and> trace (snd (handle_youtube_link ok_env scenario_message initial_state)) =
       [Tg (ReplyText analyzing_text False None), Probe (ustr ''https://youtu.be/abc''),
        PutSession 7,
        Tg (ReplyText (menu_text (PyStr (ustr ''Clip''))) True
              (Some (menu_keyboard scenario_info)))]"
  using handle_youtube_link_validation [of plain_message ok_env initial_state]
    handle_youtube_link_validation [of scenario_message ok_env initial_state]
  by (simp add: plain_invalid scenario_link scenario_sublist link_run_ok)
     (simp add: initial_state_def)

text \<open>
  C5, as stated, fails: the session is stored right after the probe, before the menu
  is built and sent, so an exception raised later is caught and reported with the
  session in place. In the first run the metadata has no title; in the second the
  transport refuses the menu. Both times the user, who had no session, has one
  afterwards.
\<close>

theorem handle_youtube_link_session_kept_counterexample:
  "user_context initial_state 7 = None
   \<and> trace (snd (handle_youtube_link untitled_env scenario_message initial_state)) =
       [Tg (ReplyText analyzing_text False None), Probe (ustr ''https://youtu.be/abc''),
        PutSession 7,
        LogError (ustr ''Format error: '' @ exn_str (KeyError (ustr ''title''))),
        Tg (ReplyText (probe_failed_text (KeyError (ustr ''title''))) False None)]
   \<and> user_context (snd (handle_youtube_link untitled_env scenario_message initial_state)) 7 =
       Some \<lparr>link = ustr ''https://youtu.be/abc'', info = untitled_info\<rparr>
   \<and> trace (snd (handle_youtube_link refusing_env scenario_message initial_state)) =
       [Tg (ReplyText analyzing_text False None), Probe (ustr ''https://youtu.be/abc''),
        PutSession 7,
        Tg (ReplyText (menu_text (PyStr (ustr ''Clip''))) True
              (Some (menu_keyboard scenario_info))),
        LogError (ustr ''Format error: '' @ ustr ''Button_data_invalid''),
        Tg (ReplyText (probe_failed_text (ExternalError (ustr ''Button_data_invalid'')))
              False None)]
   \<and> user_context (snd (handle_youtube_link refusing_env scenario_message initial_state)) 7 =
       Some \<lparr>link = ustr ''https://youtu.be/abc'', info = scenario_info\<rparr>"
  by (simp add: untitled_run refusing_run) (simp add: initial_state_def)

text \<open>
  C5, amended. For a valid link whose analysing notice is delivered: when the probe
  raises, the exception is caught, logged and shown to the user cut to 100 characters,
  and the state is the one before with these events appended, so \<open>user_context\<close> is
  unchanged. When the probe succeeds the session is stored; an exception raised after
  that (a missing title, a menu that the transport refuses) is caught, logged and shown
  in the same way, and the stored session stays.
\<close>

theorem handle_youtube_link_failure:
  assumes "is_youtube_link (strip (message_text m))"
    and "transport E (trace s) (ReplyText analyzing_text False None) = None"
  shows "(\<forall>e. probe_result E (strip (message_text m)) = Inl e \<longrightarrow>
            snd (handle_youtube_link E m s) =
              s\<lparr>trace := trace s @
                 [Tg (ReplyText analyzing_text False None), Probe (strip (message_text m)),
                  LogError (ustr ''Format error: '' @ exn_str e),
                  Tg (ReplyText (probe_failed_text e) False None)]\<rparr>
          \<and> probe_failed_text e =
              [0x274C] @ ustr '' Failed to get formats: '' @ take 100 (exn_str e))
       \<and> (\<forall>meta. probe_result E (strip (message_text m)) = Inr meta \<longrightarrow>
            user_context (snd (handle_youtube_link E m s)) =
              (user_context s)(effective_user_id m \<mapsto>
                 \<lparr>link = strip (message_text m), info = meta\<rparr>)
          \<and> (title meta = None \<longrightarrow>
                trace (snd (handle_youtube_link E m s)) = trace s @
                  [Tg (ReplyText analyzing_text False None), Probe (strip (message_text m)),
                   PutSession (effective_user_id m),
                   LogError (ustr ''Format error: '' @ exn_str (KeyError (ustr ''title''))),
                   Tg (ReplyText (probe_failed_text (KeyError (ustr ''title''))) False None)])
          \<and> (\<forall>ti e. title meta = Some ti
                \<and> transport E
                     (trace s @ [Tg (ReplyText analyzing_text False None),
                                 Probe (strip (message_text m)), PutSession (effective_user_id m)])
                     (ReplyText (menu_text ti) True (Some (menu_keyboard meta))) = Some e \<longrightarrow>
                trace (snd (handle_youtube_link E m s)) = trace s @
                  [Tg (ReplyText analyzing_text False None), Probe (strip (message_text m)),
                   PutSession (effective_user_id m),
                   Tg (ReplyText (menu_text ti) True (Some (menu_keyboard meta))),
                   LogError (ustr ''Format error: '' @ exn_str e),
                   Tg (ReplyText (probe_failed_text e) False None)]))"
  using assms
  by (auto simp: link_defs Let_def probe_failed_text_def split: option.splits sum.splits)

theorem handle_youtube_link_failure_witness:
  "is_youtube_link (strip (message_text scenario_message))
   \<and> transport failing_env (trace initial_state) (ReplyText analyzing_text False None) = None
   \<and> probe_result failing_env (strip (message_text scenario_message)) =
       Inl (ExternalError (ustr ''Video unavailable''))
   \<and> snd (handle_youtube_link failing_env scenario_message initial_state) =
       initial_state\<lparr>trace :=
         [Tg (ReplyText analyzing_text False None), Probe (ustr ''https://youtu.be/abc''),
          LogError (ustr ''Format error: '' @ ustr ''Video unavailable''),
          Tg (ReplyText (probe_failed_text (ExternalError (ustr ''Video unavailable'')))
                False None)]\<rparr>
   \<and> transport untitled_env (trace initial_state) (ReplyText analyzing_text False None) = None
   \<and> probe_result untitled_env (strip (message_text scenario_message)) = Inr untitled_info
   \<and> title untitled_info = None
   \<and> user_context (snd (handle_youtube_link untitled_env scenario_message initial_state)) 7 =
       Some \<lparr>link = ustr ''https://youtu.be/abc'', info = untitled_info\<rparr>"
proof -
  have v: "is_youtube_link (strip (message_text scenario_message))"
    by (simp add: scenario_link scenario_valid)
  have t1: "transport failing_env (trace initial_state) (ReplyText analyzing_text False None)
      = None"
    by (simp add: failing_env_def ok_env_def)
  have p1: "probe_result failing_env (strip (message_text scenario_message)) =
      Inl (ExternalError (ustr ''Video unavailable''))"
    by (simp add: failing_env_def)
  have t2: "transport untitled_env (trace initial_state) (ReplyText analyzing_text False None)
      = None"
    by (simp add: untitled_env_def ok_env_def)
  have p2: "probe_result untitled_env (strip (message_text scenario_message)) =
      Inr untitled_info"
    by (simp add: untitled_env_def)
  have n: "title untitled_info = None"
    by (simp add: untitled_info_def)
  from handle_youtube_link_failure [OF v t1] p1
  have r1: "snd (handle_youtube_link failing_env scenario_message initial_state) =
       initial_state\<lparr>trace :=
         [Tg (ReplyText analyzing_text False None), Probe (ustr ''https://youtu.be/abc''),
          LogError (ustr ''Format error: '' @ ustr ''Video unavailable''),
          Tg (ReplyText (probe_failed_text (ExternalError (ustr ''Video unavailable'')))
                False None)]\<rparr>"
    by (simp add: scenario_link initial_state_def)
  from handle_youtube_link_failure [OF v t2] p2
  have r2: "user_context (snd (handle_youtube_link untitled_env scenario_message initial_state)) 7
      = Some \<lparr>link = ustr ''https://youtu.be/abc'', info = untitled_info\<rparr>"
    by (simp add: scenario_message_def scenario_strip initial_state_def)
  from v t1 p1 r1 t2 p2 n r2 show ?thesis by simp
qed

text \<open>
  C10. \<open>user_context\<close> is a map, so a user has at most one session. After a valid
  link whose probe succeeds the user has exactly one session, the new link with the new
  metadata, whatever session the user had before; the sessions of the other users are
  kept. What the handler sends and returns does not depend on \<open>user_context\<close>: a
  replaced session is not mentioned to the user.
\<close>

theorem handle_youtube_link_replaces:
  assumes "is_youtube_link (strip (message_text m))"
    and "transport E (trace s) (ReplyText analyzing_text False None) = None"
    and "probe_result E (strip (message_text m)) = Inr meta"
  shows "{v. user_context (snd (handle_youtube_link E m s)) (effective_user_id m) = Some v} =
           {\<lparr>link = strip (message_text m), info = meta\<rparr>}
       \<and> user_context (snd (handle_youtube_link E m s)) =
           (user_context s)(effective_user_id m \<mapsto>
              \<lparr>link = strip (message_text m), info = meta\<rparr>)
       \<and> trace (snd (handle_youtube_link E m (s\<lparr>user_context := uc\<rparr>))) =
           trace (snd (handle_youtube_link E m s))
       \<and> fst (handle_youtube_link E m (s\<lparr>user_context := uc\<rparr>)) =
           fst (handle_youtube_link E m s)"
  using assms
  by (auto simp: link_defs Let_def split: option.splits sum.splits)

theorem handle_youtube_link_replaces_witness:
  "is_youtube_link (strip (message_text second_message))
   \<and> user_context scenario_state 7 =
       Some \<lparr>link = ustr ''https://youtu.be/abc'', info = scenario_info\<rparr>
   \<and> user_context (snd (handle_youtube_link second_env second_message scenario_state)) 7 =
       Some \<lparr>link = ustr ''https://www.youtube.com/watch?v=xyz'', info = second_info\<rparr>"
  using handle_youtube_link_replaces [of second_message second_env scenario_state second_info]
  by (simp add: second_message_def second_strip second_valid second_env_def ok_env_def
        scenario_state_def scenario_session_def)


end
